theory Spec2Isabelle
  imports Complex_Main
begin

section \<open>Vectors\<close>

text \<open>
  The engine computes with \<^verbatim>\<open>pygame.Vector2\<close>, a pair of Python floats. The floats are
  idealised as real numbers throughout: rounding, overflow and NaN are not modelled.
  The constants \<^verbatim>\<open>1e-8\<close>, \<^verbatim>\<open>0.1\<close> and \<^verbatim>\<open>1.0001\<close> are the
  rationals they denote. What is proved about the branches taken, the formulas
  evaluated, the fields written and the exceptions raised is about the structure of the
  computation, which the program shares. An exact equality or inequality between
  computed numbers is a fact of exact arithmetic only; such results are stated as lemmas
  and marked so.
\<close>

datatype Vector2 = Vector2 (vx: real) (vy: real)

datatype error = ValueError | KeyError | TypeError | ZeroDivisionError

type_synonym rgb = "int \<times> int \<times> int"

text \<open>
  Modelled from the spec: the operations of \<^verbatim>\<open>pygame.Vector2\<close> (the library is not
  part of the repository): addition, subtraction, multiplication by a scalar, dot
  product, squared length, length, normalisation (a \<^verbatim>\<open>ValueError\<close> on the zero
  vector) and reflection about a normal, \<^verbatim>\<open>v' = v - 2*(v.n)*n\<close>.
\<close>

definition vadd :: "Vector2 \<Rightarrow> Vector2 \<Rightarrow> Vector2" where
  "vadd u v = Vector2 (vx u + vx v) (vy u + vy v)"

definition vsub :: "Vector2 \<Rightarrow> Vector2 \<Rightarrow> Vector2" where
  "vsub u v = Vector2 (vx u - vx v) (vy u - vy v)"

definition vmul :: "Vector2 \<Rightarrow> real \<Rightarrow> Vector2" where
  "vmul v s = Vector2 (vx v * s) (vy v * s)"

definition dot :: "Vector2 \<Rightarrow> Vector2 \<Rightarrow> real" where
  "dot u v = vx u * vx v + vy u * vy v"

definition length_squared :: "Vector2 \<Rightarrow> real" where
  "length_squared v = vx v * vx v + vy v * vy v"

definition vlength :: "Vector2 \<Rightarrow> real" where
  "vlength v = sqrt (vx v * vx v + vy v * vy v)"

definition normalize :: "Vector2 \<Rightarrow> error + Vector2" where
  "normalize v =
     (if vlength v = 0 then Inl ValueError
      else Inr (Vector2 (vx v / vlength v) (vy v / vlength v)))"

definition reflect :: "Vector2 \<Rightarrow> Vector2 \<Rightarrow> Vector2" where
  "reflect v n = vsub v (vmul n (2 * dot v n))"

text \<open>
  Python's float division raises \<^verbatim>\<open>ZeroDivisionError\<close> on a zero divisor, and
  \<^verbatim>\<open>math.sqrt\<close> raises \<^verbatim>\<open>ValueError\<close> on a negative argument.
\<close>

definition py_div :: "real \<Rightarrow> real \<Rightarrow> error + real" where
  "py_div x y = (if y = 0 then Inl ZeroDivisionError else Inr (x / y))"

definition py_sqrt :: "real \<Rightarrow> error + real" where
  "py_sqrt x = (if x < 0 then Inl ValueError else Inr (sqrt x))"

section \<open>The ball\<close>

record ball =
  pos :: Vector2
  velocity :: Vector2
  radius :: real
  friction :: real
  color :: rgb
  prev_pos :: Vector2

text \<open>\<^verbatim>\<open>Ball.__init__\<close>: no argument is checked.\<close>

definition Ball_init :: "Vector2 \<Rightarrow> real \<Rightarrow> real \<Rightarrow> rgb \<Rightarrow> ball" where
  "Ball_init p fr rad col =
     \<lparr>pos = p, velocity = Vector2 0 0, radius = rad, friction = fr, color = col,
      prev_pos = p\<rparr>"

text \<open>\<^verbatim>\<open>Ball.update\<close>: the four statements in the order of the source.\<close>

definition update :: "ball \<Rightarrow> real \<Rightarrow> ball" where
  "update b dt =
     (let b1 = b\<lparr>prev_pos := pos b\<rparr>;
          b2 = b1\<lparr>pos := vadd (pos b1) (vmul (velocity b1) dt)\<rparr>;
          b3 = b2\<lparr>velocity := vmul (velocity b2) (1 - (1 - friction b2) * dt)\<rparr>
      in if vlength (velocity b3) < 1 / 10 then b3\<lparr>velocity := Vector2 0 0\<rparr> else b3)"

section \<open>The boundary polygon\<close>

definition get_nearest_point_on_segment :: "Vector2 \<Rightarrow> Vector2 \<Rightarrow> Vector2 \<Rightarrow> error + Vector2" where
  "get_nearest_point_on_segment p a b =
     (let ab = vsub b a in
      if length_squared ab = 0 then Inr a
      else case py_div (dot (vsub p a) ab) (dot ab ab) of
             Inl e \<Rightarrow> Inl e
           | Inr t \<Rightarrow> (let t' = max 0 (min 1 t) in Inr (vadd a (vmul ab t'))))"

text \<open>
  The body of the \<^verbatim>\<open>for i in range(len(polygon_points))\<close> loop, run over the indices
  still to visit. \<^verbatim>\<open>continue\<close> and falling out of the \<^verbatim>\<open>if\<close> both go on with
  the next index; \<^verbatim>\<open>return True\<close> stops.
\<close>

fun polygon_loop :: "ball \<Rightarrow> Vector2 list \<Rightarrow> real \<Rightarrow> nat list \<Rightarrow> error + (ball \<times> bool)" where
  "polygon_loop b pts damping [] = Inr (b, False)"
| "polygon_loop b pts damping (i # rest) =
     (let j = (i + 1) mod length pts;
          p1 = pts ! i;
          p2 = pts ! j
      in case get_nearest_point_on_segment (pos b) p1 p2 of
           Inl e \<Rightarrow> Inl e
         | Inr nearest \<Rightarrow>
             (let dist = vlength (vsub (pos b) nearest)
              in if dist < radius b then
                   (if dist = 0 then polygon_loop b pts damping rest
                    else case normalize (vsub (pos b) nearest) of
                           Inl e \<Rightarrow> Inl e
                         | Inr normal \<Rightarrow>
                             Inr (b\<lparr>pos := vadd nearest (vmul normal (radius b)),
                                    velocity := vmul (reflect (velocity b) normal) damping\<rparr>,
                                  True))
                 else polygon_loop b pts damping rest))"

definition handle_polygon_collision :: "ball \<Rightarrow> Vector2 list \<Rightarrow> real \<Rightarrow> error + (ball \<times> bool)" where
  "handle_polygon_collision b pts damping = polygon_loop b pts damping [0..<length pts]"

section \<open>Obstacles\<close>

record circle_obstacle =
  opos :: Vector2
  oradius :: real
  odamping :: real
  ocolor :: rgb

text \<open>
  \<^verbatim>\<open>CircleObstacle.collide\<close>. Every \<^verbatim>\<open>Ball\<close> has the attribute \<^verbatim>\<open>prev_pos\<close>
  (the constructor sets it), so \<^verbatim>\<open>start\<close> is always \<^verbatim>\<open>ball.prev_pos\<close> and
  \<^verbatim>\<open>dt\<close> is not used. The obstacle is only read.
\<close>

definition collide :: "circle_obstacle \<Rightarrow> ball \<Rightarrow> real \<Rightarrow> error + ball" where
  "collide ob b dt =
     (let start = prev_pos b;
          end = pos b;
          d = vsub end start
      in if length_squared d < 1 / 100000000 then
           (if vlength (vsub (pos b) (opos ob)) < oradius ob + radius b then
              (if vlength (vsub (pos b) (opos ob)) > 0 then
                 (case normalize (vsub (pos b) (opos ob)) of
                    Inl e \<Rightarrow> Inl e
                  | Inr normal \<Rightarrow>
                      Inr (b\<lparr>pos := vadd (opos ob) (vmul normal (oradius ob + radius b)),
                             velocity := vmul (reflect (velocity b) normal) (odamping ob)\<rparr>))
               else Inr b)
            else Inr b)
         else
           (let f = vsub start (opos ob);
                r = oradius ob + radius b;
                a = dot d d;
                b' = 2 * dot f d;
                c = dot f f - r * r;
                discriminant = b' * b' - 4 * a * c
            in if discriminant < 0 then Inr b
               else
                 (case py_sqrt discriminant of
                    Inl e \<Rightarrow> Inl e
                  | Inr discriminant' \<Rightarrow>
                 (case py_div (- b' - discriminant') (2 * a) of
                    Inl e \<Rightarrow> Inl e
                  | Inr t1 \<Rightarrow>
                 (case py_div (- b' + discriminant') (2 * a) of
                    Inl e \<Rightarrow> Inl e
                  | Inr t2 \<Rightarrow>
                 (let t = (if 0 \<le> t1 \<and> t1 \<le> 1 then t1
                           else if 0 \<le> t2 \<and> t2 \<le> 1 then t2 else - 1)
                  in if 0 \<le> t \<and> t \<le> 1 then
                       (let collision_point = vadd start (vmul d t) in
                        case normalize (vsub collision_point (opos ob)) of
                          Inl e \<Rightarrow> Inl e
                        | Inr normal \<Rightarrow>
                            Inr (b\<lparr>pos := vadd (opos ob)
                                          (vmul (vmul normal (oradius ob + radius b)) (10001 / 10000)),
                                   velocity := vmul (reflect (velocity b) normal) (odamping ob)\<rparr>))
                     else Inr b))))))"

text \<open>
  \<^verbatim>\<open>PolygonObstacle.collide\<close> is \<^verbatim>\<open>pass\<close>; the dispatch on the class of the
  obstacle is a case distinction.
\<close>

datatype obstacle = CircleObstacle circle_obstacle | PolygonObstacle "Vector2 list"

fun obstacle_collide :: "obstacle \<Rightarrow> ball \<Rightarrow> real \<Rightarrow> error + ball" where
  "obstacle_collide (CircleObstacle ob) b dt = collide ob b dt"
| "obstacle_collide (PolygonObstacle pts) b dt = Inr b"

section \<open>The course\<close>

record hole =
  hpos :: Vector2
  hradius :: real
  hcolor :: rgb

record course =
  cname :: string
  cpolygon :: "Vector2 list"
  choles :: "hole list"
  cball_start :: Vector2
  cdamping :: real
  ccolor :: rgb
  ccolorstroke :: rgb
  cobstacles :: "obstacle list"

text \<open>
  The course description read by \<^verbatim>\<open>Course.__init__\<close> is a dictionary, and a key it
  reads may be missing. Each field below is the value under the key of that name,
  \<open>None\<close> when the dictionary has no such key; \<^verbatim>\<open>d[key]\<close> is then \<open>lookup\<close>, a
  \<^verbatim>\<open>KeyError\<close> on \<open>None\<close>. A value that is present is taken to have the shape the
  constructor expects (numbers, pairs, triples, lists). The keys read only by
  \<^verbatim>\<open>main\<close> (\<^verbatim>\<open>color_background\<close>, \<^verbatim>\<open>color_ball\<close>, \<^verbatim>\<open>ball_friction\<close>,
  \<^verbatim>\<open>ball_radius\<close>) are not part of it.
\<close>

record hole_data =
  hd_pos :: "(real \<times> real) option"
  hd_radius :: "real option"

record obstacle_data =
  od_type :: "string option"
  od_pos :: "(real \<times> real) option"
  od_radius :: "real option"
  od_damping :: "real option"
  od_color :: "rgb option"

record course_data =
  cd_name :: "string option"
  cd_polygon :: "(real \<times> real) list option"
  cd_damping :: "real option"
  cd_color_course :: "rgb option"
  cd_color_course_stroke :: "rgb option"
  cd_color_holes :: "rgb option"
  cd_holes :: "hole_data list option"
  cd_obstacles :: "obstacle_data list option"
  cd_ball_start :: "(real \<times> real) option"

definition lookup :: "'a option \<Rightarrow> error + 'a" where
  "lookup v = (case v of None \<Rightarrow> Inl KeyError | Some x \<Rightarrow> Inr x)"

text \<open>Sequencing: the first exception ends the evaluation.\<close>

definition and_then :: "error + 'a \<Rightarrow> ('a \<Rightarrow> error + 'b) \<Rightarrow> error + 'b" where
  "and_then r f = (case r of Inl e \<Rightarrow> Inl e | Inr x \<Rightarrow> f x)"

text \<open>A list comprehension \<^verbatim>\<open>[f(x) for x in xs]\<close> whose body may raise.\<close>

fun comprehension :: "('a \<Rightarrow> error + 'b) \<Rightarrow> 'a list \<Rightarrow> error + 'b list" where
  "comprehension f [] = Inr []"
| "comprehension f (x # xs) =
     (case f x of
        Inl e \<Rightarrow> Inl e
      | Inr y \<Rightarrow> (case comprehension f xs of Inl e \<Rightarrow> Inl e | Inr ys \<Rightarrow> Inr (y # ys)))"

definition to_Vector2 :: "real \<times> real \<Rightarrow> Vector2" where
  "to_Vector2 p = Vector2 (fst p) (snd p)"

text \<open>
  \<^verbatim>\<open>Hole(tuple(h["pos"]), h["radius"], tuple(data["color_holes"]))\<close>: the colour of the
  holes is looked up once for each hole, so it is not needed when there is no hole.
\<close>

definition make_hole :: "rgb option \<Rightarrow> hole_data \<Rightarrow> error + hole" where
  "make_hole color_holes h =
     and_then (lookup (hd_pos h)) (\<lambda>p.
     and_then (lookup (hd_radius h)) (\<lambda>r.
     and_then (lookup color_holes) (\<lambda>c.
     Inr \<lparr>hpos = to_Vector2 p, hradius = r, hcolor = c\<rparr>)))"

text \<open>
  \<^verbatim>\<open>obstacle_types[obstacle_data["type"]](pos, radius, damping, color)\<close>: the class is
  looked up first, and a missing or unknown type name is a \<^verbatim>\<open>KeyError\<close>; then the four
  arguments are evaluated; then the class is called, and \<^verbatim>\<open>PolygonObstacle\<close>, whose
  constructor takes one argument, raises a \<^verbatim>\<open>TypeError\<close> when called with four.
\<close>

definition make_obstacle :: "obstacle_data \<Rightarrow> error + obstacle" where
  "make_obstacle od =
     and_then (lookup (od_type od)) (\<lambda>ty.
     if ty \<noteq> ''circle'' \<and> ty \<noteq> ''polygon'' then Inl KeyError
     else
     and_then (lookup (od_pos od)) (\<lambda>p.
     and_then (lookup (od_radius od)) (\<lambda>r.
     and_then (lookup (od_damping od)) (\<lambda>d.
     and_then (lookup (od_color od)) (\<lambda>c.
     if ty = ''circle'' then
       Inr (CircleObstacle \<lparr>opos = to_Vector2 p, oradius = r, odamping = d, ocolor = c\<rparr>)
     else Inl TypeError)))))"

text \<open>\<^verbatim>\<open>Course.__init__\<close>: the attributes in the order of the source.\<close>

definition Course_init :: "course_data \<Rightarrow> error + course" where
  "Course_init data =
     and_then (lookup (cd_name data)) (\<lambda>name.
     and_then (lookup (cd_polygon data)) (\<lambda>polygon.
     and_then (lookup (cd_holes data)) (\<lambda>hs.
     and_then (comprehension (make_hole (cd_color_holes data)) hs) (\<lambda>holes.
     and_then (lookup (cd_ball_start data)) (\<lambda>ball_start.
     and_then (lookup (cd_damping data)) (\<lambda>damping.
     and_then (lookup (cd_color_course data)) (\<lambda>color.
     and_then (lookup (cd_color_course_stroke data)) (\<lambda>colorstroke.
     and_then (lookup (cd_obstacles data)) (\<lambda>ods.
     and_then (comprehension make_obstacle ods) (\<lambda>obstacles.
     Inr \<lparr>cname = name,
          cpolygon = map to_Vector2 polygon,
          choles = holes,
          cball_start = to_Vector2 ball_start,
          cdamping = damping,
          ccolor = color,
          ccolorstroke = colorstroke,
          cobstacles = obstacles\<rparr>))))))))))"

text \<open>
  The course that \<^verbatim>\<open>load_course_data\<close> returns when there is no course file. It has no
  key \<^verbatim>\<open>color_course_stroke\<close>.
\<close>

definition default_course_data :: course_data where
  "default_course_data =
     \<lparr>cd_name = Some ''Simple Course'',
      cd_polygon = Some [(100, 100), (500, 100), (500, 250), (600, 250), (600, 100),
                         (700, 100), (700, 500), (600, 500), (450, 400), (450, 300),
                         (100, 300)],
      cd_damping = Some (6 / 10),
      cd_color_course = Some (40, 65, 10),
      cd_color_course_stroke = None,
      cd_color_holes = Some (0, 0, 0),
      cd_holes = Some [\<lparr>hd_pos = Some (650, 200), hd_radius = Some 15\<rparr>],
      cd_obstacles = Some [\<lparr>od_type = Some ''circle'', od_pos = Some (400, 200),
                            od_radius = Some 50, od_damping = Some (25 / 100),
                            od_color = Some (128, 40, 20)\<rparr>],
      cd_ball_start = Some (200, 200)\<rparr>"

section \<open>One tick of the physics\<close>

text \<open>
  The physics of one pass of the main loop: \<^verbatim>\<open>ball.update(dt)\<close>, then
  \<^verbatim>\<open>obs.collide(ball, dt)\<close> for every obstacle in order, then
  \<^verbatim>\<open>handle_polygon_collision\<close> on the course polygon. An exception ends the pass.
\<close>

fun collide_all :: "obstacle list \<Rightarrow> ball \<Rightarrow> real \<Rightarrow> error + ball" where
  "collide_all [] b dt = Inr b"
| "collide_all (ob # obs) b dt =
     (case obstacle_collide ob b dt of Inl e \<Rightarrow> Inl e | Inr b' \<Rightarrow> collide_all obs b' dt)"

definition physics_step :: "course \<Rightarrow> ball \<Rightarrow> real \<Rightarrow> error + ball" where
  "physics_step c b dt =
     (case collide_all (cobstacles c) (update b dt) dt of
        Inl e \<Rightarrow> Inl e
      | Inr b2 \<Rightarrow>
          (case handle_polygon_collision b2 (cpolygon c) (cdamping c) of
             Inl e \<Rightarrow> Inl e
           | Inr (b3, collided) \<Rightarrow> Inr b3))"

text \<open>Repeated ticks, one for each frame time of the list.\<close>

fun run_steps :: "course \<Rightarrow> ball \<Rightarrow> real list \<Rightarrow> error + ball" where
  "run_steps c b [] = Inr b"
| "run_steps c b (dt # dts) =
     (case physics_step c b dt of Inl e \<Rightarrow> Inl e | Inr b' \<Rightarrow> run_steps c b' dts)"

section \<open>Notions used to state the properties\<close>

text \<open>
  The nearest point of the closed segment from \<open>a\<close> to \<open>b\<close> to a point \<open>p\<close>, as the
  clamped projection: project \<open>p - a\<close> onto \<open>b - a\<close>, clamp the parameter to \<open>[0, 1]\<close>,
  take the point; for \<open>a = b\<close> it is \<open>a\<close>. This is a total function of mathematics;
  that \<^verbatim>\<open>get_nearest_point_on_segment\<close> returns it, and raises nothing, is proved below.
\<close>

definition nearest_point :: "Vector2 \<Rightarrow> Vector2 \<Rightarrow> Vector2 \<Rightarrow> Vector2" where
  "nearest_point p a b =
     (if length_squared (vsub b a) = 0 then a
      else vadd a (vmul (vsub b a)
             (max 0 (min 1 (dot (vsub p a) (vsub b a) / dot (vsub b a) (vsub b a))))))"

text \<open>The nearest point of edge \<open>i\<close> (from vertex \<open>i\<close> to the next, wrapping around).\<close>

definition edge_nearest :: "ball \<Rightarrow> Vector2 list \<Rightarrow> nat \<Rightarrow> Vector2" where
  "edge_nearest b pts i = nearest_point (pos b) (pts ! i) (pts ! ((i + 1) mod length pts))"

definition edge_dist :: "ball \<Rightarrow> Vector2 list \<Rightarrow> nat \<Rightarrow> real" where
  "edge_dist b pts i = vlength (vsub (pos b) (edge_nearest b pts i))"

text \<open>Edge \<open>i\<close> collides: strictly closer than the radius, and not at distance zero.\<close>

definition edge_hit :: "ball \<Rightarrow> Vector2 list \<Rightarrow> nat \<Rightarrow> bool" where
  "edge_hit b pts i \<longleftrightarrow> edge_dist b pts i < radius b \<and> edge_dist b pts i \<noteq> 0"

text \<open>The unit vector of a nonzero vector, and the response to a hit with a given normal.\<close>

definition unit :: "Vector2 \<Rightarrow> Vector2" where
  "unit v = Vector2 (vx v / vlength v) (vy v / vlength v)"

definition edge_resolve :: "ball \<Rightarrow> Vector2 list \<Rightarrow> real \<Rightarrow> nat \<Rightarrow> ball" where
  "edge_resolve b pts k i =
     (let nearest = edge_nearest b pts i;
          normal = unit (vsub (pos b) nearest)
      in b\<lparr>pos := vadd nearest (vmul normal (radius b)),
           velocity := vmul (reflect (velocity b) normal) k\<rparr>)"

text \<open>The point of the segment from \<open>a\<close> to \<open>b\<close> at parameter \<open>t\<close>.\<close>

definition segment_point :: "Vector2 \<Rightarrow> Vector2 \<Rightarrow> real \<Rightarrow> Vector2" where
  "segment_point a b t = vadd a (vmul (vsub b a) t)"

text \<open>
  The quantities of the swept test of \<^verbatim>\<open>CircleObstacle.collide\<close>, named as in the
  description of the algorithm: the displacement \<open>d\<close> of the frame, the combined radius
  \<open>r\<close>, the coefficients \<open>a = d.d\<close>, \<open>b = 2*(f.d)\<close>, \<open>c = f.f - r*r\<close> for
  \<open>f = start - center\<close>, the discriminant, the two roots, the root chosen (the first if it
  lies in \<open>[0, 1]\<close>, else the second), the point of the path at time \<open>t\<close>, and the
  response for a normal \<open>n\<close>: position \<open>center + n * r * s\<close>, velocity reflected about
  \<open>n\<close> and scaled by the damping of the obstacle.
\<close>

definition travel :: "ball \<Rightarrow> Vector2" where
  "travel b = vsub (pos b) (prev_pos b)"

definition combined_radius :: "circle_obstacle \<Rightarrow> ball \<Rightarrow> real" where
  "combined_radius ob b = oradius ob + radius b"

definition quad_a :: "ball \<Rightarrow> real" where
  "quad_a b = dot (travel b) (travel b)"

definition quad_b :: "circle_obstacle \<Rightarrow> ball \<Rightarrow> real" where
  "quad_b ob b = 2 * dot (vsub (prev_pos b) (opos ob)) (travel b)"

definition quad_c :: "circle_obstacle \<Rightarrow> ball \<Rightarrow> real" where
  "quad_c ob b =
     dot (vsub (prev_pos b) (opos ob)) (vsub (prev_pos b) (opos ob))
       - combined_radius ob b * combined_radius ob b"

definition quad_disc :: "circle_obstacle \<Rightarrow> ball \<Rightarrow> real" where
  "quad_disc ob b = quad_b ob b * quad_b ob b - 4 * quad_a b * quad_c ob b"

definition root1 :: "circle_obstacle \<Rightarrow> ball \<Rightarrow> real" where
  "root1 ob b = (- quad_b ob b - sqrt (quad_disc ob b)) / (2 * quad_a b)"

definition root2 :: "circle_obstacle \<Rightarrow> ball \<Rightarrow> real" where
  "root2 ob b = (- quad_b ob b + sqrt (quad_disc ob b)) / (2 * quad_a b)"

definition in_frame :: "real \<Rightarrow> bool" where
  "in_frame t \<longleftrightarrow> 0 \<le> t \<and> t \<le> 1"

definition impact_time :: "circle_obstacle \<Rightarrow> ball \<Rightarrow> real" where
  "impact_time ob b = (if in_frame (root1 ob b) then root1 ob b else root2 ob b)"

definition path_point :: "ball \<Rightarrow> real \<Rightarrow> Vector2" where
  "path_point b t = vadd (prev_pos b) (vmul (travel b) t)"

definition bounce :: "circle_obstacle \<Rightarrow> ball \<Rightarrow> Vector2 \<Rightarrow> real \<Rightarrow> ball" where
  "bounce ob b n s =
     b\<lparr>pos := vadd (opos ob) (vmul (vmul n (combined_radius ob b)) s),
       velocity := vmul (reflect (velocity b) n) (odamping ob)\<rparr>"

section \<open>Concrete data\<close>

text \<open>Balls, polygons, obstacles and courses on which the properties are evaluated.\<close>

definition ball1 :: ball where
  "ball1 = \<lparr>pos = Vector2 0 0, velocity = Vector2 10 0, radius = 8, friction = 85 / 100,
            color = (192, 192, 192), prev_pos = Vector2 5 5\<rparr>"

definition square :: "Vector2 list" where
  "square = [Vector2 0 0, Vector2 100 0, Vector2 100 100, Vector2 0 100]"

definition ball2 :: ball where
  "ball2 = \<lparr>pos = Vector2 50 5, velocity = Vector2 3 (- 4), radius = 8, friction = 85 / 100,
            color = (192, 192, 192), prev_pos = Vector2 47 9\<rparr>"

definition ball3 :: ball where
  "ball3 = \<lparr>pos = Vector2 50 50, velocity = Vector2 0 0, radius = 8, friction = 85 / 100,
            color = (192, 192, 192), prev_pos = Vector2 50 50\<rparr>"

definition obst1 :: circle_obstacle where
  "obst1 = \<lparr>opos = Vector2 0 0, oradius = 2, odamping = 1 / 4, ocolor = (128, 40, 20)\<rparr>"

definition ball4 :: ball where
  "ball4 = \<lparr>pos = Vector2 5 0, velocity = Vector2 20 5, radius = 1, friction = 85 / 100,
            color = (192, 192, 192), prev_pos = Vector2 (- 5) 0\<rparr>"

definition ball4_bounced :: ball where
  "ball4_bounced = ball4\<lparr>pos := Vector2 (- 30003 / 10000) 0, velocity := Vector2 (- 5) (5 / 4)\<rparr>"


definition dup_polygon :: "Vector2 list" where
  "dup_polygon = [Vector2 0 0, Vector2 0 0, Vector2 100 0, Vector2 100 100, Vector2 0 100]"

definition ball6 :: ball where
  "ball6 = \<lparr>pos = Vector2 3 4, velocity = Vector2 0 (- 2), radius = 8, friction = 85 / 100,
            color = (192, 192, 192), prev_pos = Vector2 3 4\<rparr>"

definition ball7 :: ball where
  "ball7 = \<lparr>pos = Vector2 0 0, velocity = Vector2 1 1, radius = 8, friction = 85 / 100,
            color = (192, 192, 192), prev_pos = Vector2 0 0\<rparr>"

definition ball9 :: ball where
  "ball9 = \<lparr>pos = Vector2 5 10, velocity = Vector2 20 0, radius = 1, friction = 85 / 100,
            color = (192, 192, 192), prev_pos = Vector2 (- 5) 10\<rparr>"

definition obst2 :: circle_obstacle where
  "obst2 = \<lparr>opos = Vector2 80 50, oradius = 10, odamping = 1 / 4, ocolor = (128, 40, 20)\<rparr>"

definition course1 :: course where
  "course1 = \<lparr>cname = ''Simple Course'', cpolygon = square,
               choles = [\<lparr>hpos = Vector2 90 90, hradius = 5, hcolor = (0, 0, 0)\<rparr>],
               cball_start = Vector2 50 50, cdamping = 3 / 5, ccolor = (40, 65, 10),
               ccolorstroke = (0, 0, 0), cobstacles = [CircleObstacle obst2]\<rparr>"

definition bad_data :: course_data where
  "bad_data = \<lparr>cd_name = Some ''Two points'', cd_polygon = Some [(0, 0), (10, 0)],
                cd_damping = Some (3 / 5), cd_color_course = Some (40, 65, 10),
                cd_color_course_stroke = Some (0, 0, 0), cd_color_holes = Some (0, 0, 0),
                cd_holes = Some [], cd_obstacles = Some [], cd_ball_start = Some (5, 5)\<rparr>"

definition bad_course :: course where
  "bad_course = \<lparr>cname = ''Two points'', cpolygon = [Vector2 0 0, Vector2 10 0], choles = [],
                  cball_start = Vector2 5 5, cdamping = 3 / 5, ccolor = (40, 65, 10),
                  ccolorstroke = (0, 0, 0), cobstacles = []\<rparr>"

definition bad_ball :: ball where
  "bad_ball = (Ball_init (Vector2 5 5) (- 2) (- 1) (192, 192, 192))\<lparr>velocity := Vector2 10 0\<rparr>"

section \<open>Vector algebra\<close>

lemma vlength_nonneg: "0 \<le> vlength v"
  by (simp add: vlength_def)

lemma vlength_eq_0_iff: "vlength v = 0 \<longleftrightarrow> v = Vector2 0 0"
  by (cases v) (simp add: vlength_def)

lemma vlength_axis_x: "vlength (Vector2 x 0) = \<bar>x\<bar>"
  by (simp add: vlength_def)

lemma vlength_axis_y: "vlength (Vector2 0 y) = \<bar>y\<bar>"
  by (simp add: vlength_def)

lemmas vec_defs = vadd_def vsub_def vmul_def dot_def length_squared_def

lemma vlength_sq: "vlength v * vlength v = dot v v"
  by (simp add: vlength_def dot_def)

lemma vlength_sqrt_dot: "vlength v = sqrt (dot v v)"
  by (simp add: vlength_def dot_def)

lemma dot_self_nonneg: "0 \<le> dot v v"
  by (simp add: dot_def)

lemma vlength_le_iff: "vlength u \<le> vlength v \<longleftrightarrow> dot u u \<le> dot v v"
  by (simp add: vlength_sqrt_dot)

lemma length_squared_zero: "length_squared v = 0 \<longleftrightarrow> v = Vector2 0 0"
  by (cases v) (simp add: length_squared_def)

lemma normalize_unit: "vlength v \<noteq> 0 \<Longrightarrow> normalize v = Inr (unit v)"
  by (simp add: normalize_def unit_def)

lemma normalize_zero: "vlength v = 0 \<Longrightarrow> normalize v = Inl ValueError"
  by (simp add: normalize_def)

section \<open>Integration\<close>

text \<open>
  C4. For every \<open>dt > 0\<close>, \<^verbatim>\<open>update(dt)\<close> sets the previous position to the current
  position, adds \<open>velocity * dt\<close> to the position, multiplies the velocity by
  \<open>1 - (1 - friction) * dt\<close>, and replaces a velocity of magnitude below \<open>0.1\<close> by zero.
  Radius, friction and colour stay as they are.
\<close>

theorem update_steps:
  assumes "0 < dt"
  shows "prev_pos (update b dt) = pos b \<and>
         pos (update b dt) = vadd (pos b) (vmul (velocity b) dt) \<and>
         velocity (update b dt) =
           (if vlength (vmul (velocity b) (1 - (1 - friction b) * dt)) < 1 / 10
            then Vector2 0 0
            else vmul (velocity b) (1 - (1 - friction b) * dt)) \<and>
         radius (update b dt) = radius b \<and> friction (update b dt) = friction b \<and>
         color (update b dt) = color b"
  by (simp add: update_def Let_def)

theorem update_steps_witness:
  "0 < (1::real) \<and> prev_pos (update ball1 1) = Vector2 0 0 \<and>
   pos (update ball1 1) = Vector2 10 0 \<and> velocity (update ball1 1) = Vector2 (17 / 2) 0"
  using update_steps [of 1 ball1]
  by (simp add: ball1_def vadd_def vmul_def vlength_axis_x)

section \<open>Nearest point of a segment\<close>

lemma py_div_nonzero: "y \<noteq> 0 \<Longrightarrow> py_div x y = Inr (x / y)"
  by (simp add: py_div_def)

lemma py_div_zero: "py_div x 0 = Inl ZeroDivisionError"
  by (simp add: py_div_def)

lemma py_sqrt_nonneg: "\<not> x < 0 \<Longrightarrow> py_sqrt x = Inr (sqrt x)"
  by (simp add: py_sqrt_def)

lemma get_nearest_point_on_segment_eq:
  "get_nearest_point_on_segment p a b = Inr (nearest_point p a b)"
proof (cases "length_squared (vsub b a) = 0")
  case True
  then show ?thesis
    by (simp add: get_nearest_point_on_segment_def nearest_point_def Let_def)
next
  case False
  then have "dot (vsub b a) (vsub b a) \<noteq> 0"
    by (simp add: dot_def length_squared_def)
  then have "py_div (dot (vsub p a) (vsub b a)) (dot (vsub b a) (vsub b a))
               = Inr (dot (vsub p a) (vsub b a) / dot (vsub b a) (vsub b a))"
    by (rule py_div_nonzero)
  with False show ?thesis
    by (simp add: get_nearest_point_on_segment_def nearest_point_def Let_def)
qed

lemma nearest_on_segment:
  "\<exists>t. 0 \<le> t \<and> t \<le> 1 \<and> nearest_point p a b = segment_point a b t"
proof (cases "length_squared (vsub b a) = 0")
  case True
  then have "nearest_point p a b = segment_point a b 0"
    by (cases a) (simp add: nearest_point_def segment_point_def vec_defs)
  then show ?thesis by (intro exI[of _ 0]) simp
next
  case False
  let ?t = "max 0 (min 1 (dot (vsub p a) (vsub b a) / dot (vsub b a) (vsub b a)))"
  have "nearest_point p a b = segment_point a b ?t"
    using False by (simp add: nearest_point_def segment_point_def Let_def)
  moreover have "0 \<le> ?t" "?t \<le> 1" by simp_all
  ultimately show ?thesis by blast
qed

lemma dot_expand:
  "dot (vsub (vadd a (vmul ab t)) (vadd a (vmul ab t'))) w = (t - t') * dot ab w"
  by (simp add: vec_defs algebra_simps)

lemma nearest_obtuse:
  assumes "0 \<le> s" "s \<le> 1"
  shows "dot (vsub p (nearest_point p a b))
             (vsub (segment_point a b s) (nearest_point p a b)) \<le> 0"
proof (cases "length_squared (vsub b a) = 0")
  case True
  then have "vsub b a = Vector2 0 0" by (simp add: length_squared_zero)
  then show ?thesis
    by (simp add: nearest_point_def segment_point_def vec_defs)
next
  case False
  define L where "L = dot (vsub b a) (vsub b a)"
  define D where "D = dot (vsub p a) (vsub b a)"
  define t where "t = max 0 (min 1 (D / L))"
  have "L = length_squared (vsub b a)"
    by (simp add: L_def dot_def length_squared_def)
  with False have "L \<noteq> 0" by simp
  moreover have "0 \<le> L" unfolding L_def by (rule dot_self_nonneg)
  ultimately have Lpos: "0 < L" by linarith
  have n: "nearest_point p a b = vadd a (vmul (vsub b a) t)"
    using False by (simp add: nearest_point_def Let_def t_def D_def L_def)
  have eq: "dot (vsub p (vadd a (vmul (vsub b a) t)))
                (vsub (segment_point a b s) (vadd a (vmul (vsub b a) t)))
            = (s - t) * (D - t * L)"
    by (simp add: segment_point_def D_def L_def vec_defs algebra_simps)
  have "(s - t) * (D - t * L) \<le> 0"
  proof -
    consider "D / L < 0" | "1 < D / L" | "0 \<le> D / L" "D / L \<le> 1" by linarith
    then show ?thesis
    proof cases
      case 1
      then have "t = 0" by (simp add: t_def)
      moreover from 1 Lpos have "D < 0" by (simp add: divide_less_0_iff)
      ultimately show ?thesis using assms by (simp add: mult_nonneg_nonpos)
    next
      case 2
      then have t1: "t = 1" by (simp add: t_def)
      from 2 Lpos have "L < D" by (simp add: field_simps)
      with t1 assms show ?thesis by (simp add: mult_nonpos_nonneg)
    next
      case 3
      then have "t = D / L" by (simp add: t_def)
      with Lpos have "D - t * L = 0" by simp
      then show ?thesis by simp
    qed
  qed
  with eq n show ?thesis by simp
qed

lemma dist_expand:
  "dot (vsub p q) (vsub p q) =
     dot (vsub p n) (vsub p n) + dot (vsub q n) (vsub q n) - 2 * dot (vsub p n) (vsub q n)"
  by (simp add: vec_defs algebra_simps)

lemma nearest_is_min:
  assumes "0 \<le> s" "s \<le> 1"
  shows "vlength (vsub p (nearest_point p a b))
           \<le> vlength (vsub p (segment_point a b s))"
proof -
  let ?n = "nearest_point p a b"
  let ?q = "segment_point a b s"
  have "dot (vsub p ?n) (vsub ?q ?n) \<le> 0" using assms by (rule nearest_obtuse)
  moreover have "0 \<le> dot (vsub ?q ?n) (vsub ?q ?n)" by (rule dot_self_nonneg)
  ultimately have "dot (vsub p ?n) (vsub p ?n) \<le> dot (vsub p ?q) (vsub p ?q)"
    using dist_expand[of p ?q ?n] by linarith
  then show ?thesis by (simp add: vlength_le_iff)
qed

section \<open>The boundary loop\<close>

lemma polygon_loop_find:
  "polygon_loop b pts k idx =
     (case find (edge_hit b pts) idx of
        None \<Rightarrow> Inr (b, False)
      | Some i \<Rightarrow> Inr (edge_resolve b pts k i, True))"
proof (induction idx)
  case Nil
  show ?case by simp
next
  case (Cons i rest)
  show ?case
  proof (cases "edge_hit b pts i")
    case True
    then have "vlength (vsub (pos b) (edge_nearest b pts i)) \<noteq> 0"
      by (simp add: edge_hit_def edge_dist_def)
    then have "normalize (vsub (pos b) (edge_nearest b pts i))
                 = Inr (unit (vsub (pos b) (edge_nearest b pts i)))"
      by (rule normalize_unit)
    with True show ?thesis
      by (simp add: edge_hit_def edge_dist_def edge_nearest_def edge_resolve_def Let_def
            get_nearest_point_on_segment_eq)
  next
    case False
    with Cons.IH show ?thesis
      by (auto simp add: edge_hit_def edge_dist_def edge_nearest_def Let_def
            get_nearest_point_on_segment_eq)
  qed
qed

lemma find_upt_first:
  assumes "i < n" "P i" "\<forall>j<i. \<not> P j"
  shows "find P [0..<n] = Some i"
  using assms by (auto simp add: find_Some_iff intro!: exI[of _ i])

lemma find_upt_none:
  assumes "\<forall>j<n. \<not> P j"
  shows "find P [0..<n] = None"
  using assms by (simp add: find_None_iff)

lemma handle_no_hit:
  assumes "\<forall>i<length pts. \<not> edge_hit b pts i"
  shows "handle_polygon_collision b pts k = Inr (b, False)"
proof -
  from assms have "find (edge_hit b pts) [0..<length pts] = None"
    by (rule find_upt_none)
  then show ?thesis
    by (simp add: handle_polygon_collision_def polygon_loop_find)
qed

lemma handle_first_hit:
  assumes "i < length pts" "edge_hit b pts i" "\<forall>j<i. \<not> edge_hit b pts j"
  shows "handle_polygon_collision b pts k = Inr (edge_resolve b pts k i, True)"
proof -
  from assms have "find (edge_hit b pts) [0..<length pts] = Some i"
    by (rule find_upt_first)
  then show ?thesis
    by (simp add: handle_polygon_collision_def polygon_loop_find)
qed

lemma handle_cases:
  obtains (miss) "\<forall>i<length pts. \<not> edge_hit b pts i"
                 "handle_polygon_collision b pts k = Inr (b, False)"
        | (hit) i where "i < length pts" "edge_hit b pts i" "\<forall>j<i. \<not> edge_hit b pts j"
                 "handle_polygon_collision b pts k = Inr (edge_resolve b pts k i, True)"
proof (cases "\<exists>i. i < length pts \<and> edge_hit b pts i")
  case False
  then have "\<forall>i<length pts. \<not> edge_hit b pts i" by blast
  then show ?thesis using handle_no_hit miss by blast
next
  case True
  then obtain i where i: "i < length pts \<and> edge_hit b pts i"
    and least: "\<forall>j<i. \<not> (j < length pts \<and> edge_hit b pts j)"
    using exists_least_iff[of "\<lambda>i. i < length pts \<and> edge_hit b pts i"] by blast
  from i least have "\<forall>j<i. \<not> edge_hit b pts j" by auto
  with i show ?thesis using handle_first_hit hit by blast
qed

text \<open>
  C3. \<^verbatim>\<open>handle_polygon_collision\<close> visits the edges in order, edge \<open>i\<close> running
  from vertex \<open>i\<close> to vertex \<open>(i + 1) mod n\<close>. If no edge has its nearest point
  strictly closer than the radius and at nonzero distance, it returns false and leaves
  the ball alone. Otherwise, for the first such edge, it puts the ball at
  \<open>nearest + normal * radius\<close> with \<open>normal\<close> the unit vector of \<open>pos - nearest\<close>,
  replaces the velocity by its reflection about \<open>normal\<close> times the damping, and
  returns true.
\<close>

theorem handle_polygon_collision_first_edge:
  "((\<forall>i<length pts. \<not> edge_hit b pts i) \<longrightarrow>
      handle_polygon_collision b pts k = Inr (b, False)) \<and>
   (i < length pts \<and> edge_hit b pts i \<and> (\<forall>j<i. \<not> edge_hit b pts j) \<longrightarrow>
      handle_polygon_collision b pts k = Inr (edge_resolve b pts k i, True))"
  using handle_no_hit [of pts b k] handle_first_hit [of i pts b k] by blast

lemma square_dists:
  "edge_nearest ball3 square 0 = Vector2 50 0"
  "edge_nearest ball3 square (Suc 0) = Vector2 100 50"
  "edge_nearest ball3 square 2 = Vector2 50 100"
  "edge_nearest ball3 square 3 = Vector2 0 50"
  by (simp_all add: edge_nearest_def square_def ball3_def nearest_point_def
        vec_defs Let_def)

lemma ball3_no_hit: "\<forall>i<length square. \<not> edge_hit ball3 square i"
proof (intro allI impI)
  fix i assume "i < length square"
  then have "i < 4" by (simp add: square_def)
  then consider "i = 0" | "i = Suc 0" | "i = 2" | "i = 3" by linarith
  then show "\<not> edge_hit ball3 square i"
    by cases
      (simp_all add: edge_hit_def edge_dist_def square_dists,
       simp_all add: ball3_def vsub_def vlength_axis_x vlength_axis_y)
qed

lemma ball2_edge0: "edge_nearest ball2 square 0 = Vector2 50 0"
  by (simp add: edge_nearest_def square_def ball2_def nearest_point_def
        vec_defs Let_def)

lemma ball2_hit: "edge_hit ball2 square 0"
  by (simp add: edge_hit_def edge_dist_def ball2_edge0) (simp add: ball2_def vsub_def vlength_axis_y)

lemma ball2_resolve:
  "edge_resolve ball2 square (3 / 5) 0 = ball2\<lparr>pos := Vector2 50 8, velocity := Vector2 (9 / 5) (12 / 5)\<rparr>"
  by (simp add: edge_resolve_def ball2_edge0 Let_def)
     (simp add: ball2_def unit_def vsub_def vlength_axis_y vadd_def vmul_def reflect_def dot_def)

theorem handle_polygon_collision_first_edge_witness:
  "length square = 4 \<and>
   \<not> edge_hit ball3 square 0 \<and> \<not> edge_hit ball3 square 1 \<and>
   \<not> edge_hit ball3 square 2 \<and> \<not> edge_hit ball3 square 3 \<and>
   handle_polygon_collision ball3 square (3 / 5) = Inr (ball3, False) \<and>
   edge_hit ball2 square 0 \<and>
   handle_polygon_collision ball2 square (3 / 5) =
     Inr (ball2\<lparr>pos := Vector2 50 8, velocity := Vector2 (9 / 5) (12 / 5)\<rparr>, True)"
proof -
  have l: "length square = 4" by (simp add: square_def)
  have n: "\<not> edge_hit ball3 square 0" "\<not> edge_hit ball3 square 1"
    "\<not> edge_hit ball3 square 2" "\<not> edge_hit ball3 square 3"
    using ball3_no_hit l by simp_all
  have m: "handle_polygon_collision ball3 square (3 / 5) = Inr (ball3, False)"
    using handle_polygon_collision_first_edge
            [where pts = square and b = ball3 and k = "3 / 5" and i = 0]
          ball3_no_hit by blast
  have h: "handle_polygon_collision ball2 square (3 / 5) =
             Inr (ball2\<lparr>pos := Vector2 50 8, velocity := Vector2 (9 / 5) (12 / 5)\<rparr>, True)"
    using handle_polygon_collision_first_edge
            [where pts = square and b = ball2 and k = "3 / 5" and i = 0]
          ball2_hit ball2_resolve l by simp
  from l n m ball2_hit h show ?thesis by (intro conjI)
qed

section \<open>Containment\<close>

lemma vlength_vmul: "vlength (vmul v s) = \<bar>s\<bar> * vlength v"
proof -
  have "vx v * s * (vx v * s) + vy v * s * (vy v * s) = (s * s) * (vx v * vx v + vy v * vy v)"
    by (simp add: algebra_simps)
  then show ?thesis
    by (simp add: vlength_def vmul_def real_sqrt_mult)
qed

lemma dot_vmul_left: "dot (vmul v s) w = s * dot v w"
  by (simp add: vec_defs algebra_simps)

lemma push_vector:
  "vsub (vadd n (vmul (unit (vsub p n)) r)) n = vmul (vsub p n) (r / vlength (vsub p n))"
  by (simp add: unit_def vec_defs)

lemma push_distance:
  assumes "vlength (vsub p n) \<noteq> 0" "0 \<le> r"
  shows "vlength (vsub (vadd n (vmul (unit (vsub p n)) r)) n) = r"
proof -
  have "0 < vlength (vsub p n)"
    using assms(1) vlength_nonneg[of "vsub p n"] by linarith
  with assms(2) show ?thesis
    by (simp add: push_vector vlength_vmul)
qed

lemma push_far_from_segment:
  assumes nz: "vlength (vsub p (nearest_point p a b)) \<noteq> 0"
    and r: "0 \<le> r" and s: "0 \<le> s" "s \<le> 1"
  defines "n \<equiv> nearest_point p a b"
  defines "p' \<equiv> vadd n (vmul (unit (vsub p n)) r)"
  shows "r \<le> vlength (vsub p' (segment_point a b s))"
proof -
  let ?q = "segment_point a b s"
  have len: "0 < vlength (vsub p n)"
    using nz vlength_nonneg[of "vsub p n"] by (simp add: n_def)
  have obt: "dot (vsub p n) (vsub ?q n) \<le> 0"
    unfolding n_def using s by (rule nearest_obtuse)
  have fac: "0 \<le> r / vlength (vsub p n)" using r len by simp
  from fac obt have "(r / vlength (vsub p n)) * dot (vsub p n) (vsub ?q n) \<le> 0"
    by (rule mult_nonneg_nonpos)
  moreover have "dot (vsub p' n) (vsub ?q n)
                   = (r / vlength (vsub p n)) * dot (vsub p n) (vsub ?q n)"
    unfolding p'_def push_vector dot_vmul_left ..
  ultimately have "dot (vsub p' n) (vsub ?q n) \<le> 0" by simp
  moreover have "0 \<le> dot (vsub ?q n) (vsub ?q n)" by (rule dot_self_nonneg)
  ultimately have "dot (vsub p' n) (vsub p' n) \<le> dot (vsub p' ?q) (vsub p' ?q)"
    using dist_expand[of p' ?q n] by linarith
  then have "vlength (vsub p' n) \<le> vlength (vsub p' ?q)"
    by (simp add: vlength_le_iff)
  moreover have "vlength (vsub p' n) = r"
    unfolding p'_def using nz r by (intro push_distance) (simp_all add: n_def)
  ultimately show ?thesis by simp
qed

lemma push_nearest_distance:
  assumes nz: "vlength (vsub p (nearest_point p a b)) \<noteq> 0"
    and r: "0 \<le> r"
  defines "n \<equiv> nearest_point p a b"
  defines "p' \<equiv> vadd n (vmul (unit (vsub p n)) r)"
  shows "vlength (vsub p' (nearest_point p' a b)) = r"
proof (rule antisym)
  obtain t where t: "0 \<le> t" "t \<le> 1" "n = segment_point a b t"
    using nearest_on_segment[of p a b] by (auto simp add: n_def)
  have "vlength (vsub p' (nearest_point p' a b)) \<le> vlength (vsub p' n)"
    using nearest_is_min[OF t(1,2), of p' a b] t(3) by simp
  moreover have "vlength (vsub p' n) = r"
    unfolding p'_def using nz r by (intro push_distance) (simp_all add: n_def)
  ultimately show "vlength (vsub p' (nearest_point p' a b)) \<le> r" by simp
next
  obtain t where t: "0 \<le> t" "t \<le> 1" "nearest_point p' a b = segment_point a b t"
    using nearest_on_segment[of p' a b] by auto
  show "r \<le> vlength (vsub p' (nearest_point p' a b))"
    using push_far_from_segment[OF nz r t(1,2)] t(3) by (simp add: p'_def n_def)
qed

text \<open>
  In exact arithmetic, whenever \<^verbatim>\<open>handle_polygon_collision\<close> returns true, the ball
  was resolved against the first colliding edge \<open>i\<close>, and its new position is at distance
  exactly the radius from that edge: some point of the closed segment is at distance
  \<open>radius\<close>, no point of it, endpoints included, is closer, and the nearest point as the
  code computes it is at distance \<open>radius\<close>. This is a fact about the real numbers: the
  floating point position of the program is at that distance only up to rounding.
\<close>

lemma exact_polygon_collision_touches_edge:
  assumes "handle_polygon_collision b pts k = Inr (b', True)"
  shows "\<exists>i<length pts. edge_hit b pts i \<and> (\<forall>j<i. \<not> edge_hit b pts j) \<and>
           b' = edge_resolve b pts k i \<and>
           edge_dist b' pts i = radius b' \<and>
           (\<exists>s. 0 \<le> s \<and> s \<le> 1 \<and>
              vlength (vsub (pos b')
                 (segment_point (pts ! i) (pts ! ((i + 1) mod length pts)) s)) = radius b') \<and>
           (\<forall>s. 0 \<le> s \<and> s \<le> 1 \<longrightarrow>
              radius b' \<le> vlength (vsub (pos b')
                 (segment_point (pts ! i) (pts ! ((i + 1) mod length pts)) s)))"
proof (cases rule: handle_cases[of pts b k])
  case miss
  with assms show ?thesis by simp
next
  case (hit i)
  with assms have b': "b' = edge_resolve b pts k i" by simp
  let ?a = "pts ! i" and ?c = "pts ! ((i + 1) mod length pts)"
  let ?n = "nearest_point (pos b) ?a ?c"
  from hit(2) have nz: "vlength (vsub (pos b) ?n) \<noteq> 0"
    and lt: "vlength (vsub (pos b) ?n) < radius b"
    by (simp_all add: edge_hit_def edge_dist_def edge_nearest_def)
  from lt have r: "0 \<le> radius b"
    using vlength_nonneg[of "vsub (pos b) ?n"] by linarith
  have pos': "pos b' = vadd ?n (vmul (unit (vsub (pos b) ?n)) (radius b))"
    and rad': "radius b' = radius b"
    by (simp_all add: b' edge_resolve_def edge_nearest_def Let_def)
  have "edge_dist b' pts i = radius b'"
    using push_nearest_distance[OF nz r]
    by (simp add: edge_dist_def edge_nearest_def pos' rad')
  moreover have "\<exists>s. 0 \<le> s \<and> s \<le> 1 \<and>
      vlength (vsub (pos b') (segment_point ?a ?c s)) = radius b'"
  proof -
    obtain t where t: "0 \<le> t" "t \<le> 1" "?n = segment_point ?a ?c t"
      using nearest_on_segment[of "pos b" ?a ?c] by blast
    have "vlength (vsub (pos b') ?n) = radius b'"
      using push_distance[OF nz r] by (simp add: pos' rad')
    with t show ?thesis by auto
  qed
  moreover have "\<forall>s. 0 \<le> s \<and> s \<le> 1 \<longrightarrow>
      radius b' \<le> vlength (vsub (pos b') (segment_point ?a ?c s))"
    using push_far_from_segment[OF nz r] by (simp add: pos' rad')
  ultimately show ?thesis using hit(1-3) b' by blast
qed

section \<open>Circular obstacles\<close>

lemmas quad_defs = travel_def combined_radius_def quad_a_def quad_b_def quad_c_def quad_disc_def
  root1_def root2_def in_frame_def impact_time_def path_point_def

lemma vmul_one: "vmul v 1 = v"
  by (cases v) (simp add: vmul_def)

lemma collide_folded:
  "collide ob b dt =
     (if length_squared (travel b) < 1 / 100000000 then
        (if vlength (vsub (pos b) (opos ob)) < combined_radius ob b then
           (if vlength (vsub (pos b) (opos ob)) > 0 then
              (case normalize (vsub (pos b) (opos ob)) of
                 Inl e \<Rightarrow> Inl e
               | Inr normal \<Rightarrow>
                   Inr (b\<lparr>pos := vadd (opos ob) (vmul normal (combined_radius ob b)),
                          velocity := vmul (reflect (velocity b) normal) (odamping ob)\<rparr>))
            else Inr b)
         else Inr b)
      else if quad_disc ob b < 0 then Inr b
      else
        (case py_sqrt (quad_disc ob b) of
           Inl e \<Rightarrow> Inl e
         | Inr sd \<Rightarrow>
        (case py_div (- quad_b ob b - sd) (2 * quad_a b) of
           Inl e \<Rightarrow> Inl e
         | Inr t1 \<Rightarrow>
        (case py_div (- quad_b ob b + sd) (2 * quad_a b) of
           Inl e \<Rightarrow> Inl e
         | Inr t2 \<Rightarrow>
        (if in_frame (if in_frame t1 then t1 else if in_frame t2 then t2 else - 1)
         then (case normalize
                     (vsub (path_point b (if in_frame t1 then t1
                                          else if in_frame t2 then t2 else - 1))
                           (opos ob)) of
                 Inl e \<Rightarrow> Inl e
               | Inr normal \<Rightarrow> Inr (bounce ob b normal (10001 / 10000)))
         else Inr b)))))"
  unfolding collide_def Let_def quad_defs bounce_def ..

lemma not_in_frame_neg: "\<not> in_frame (- 1)"
  by (simp add: in_frame_def)

lemma vlength_pos_iff: "0 < vlength v \<longleftrightarrow> vlength v \<noteq> 0"
  using vlength_nonneg[of v] by linarith

lemma collide_static:
  assumes "length_squared (travel b) < 1 / 100000000"
  shows "collide ob b dt =
     (if vlength (vsub (pos b) (opos ob)) < combined_radius ob b \<and>
         vlength (vsub (pos b) (opos ob)) \<noteq> 0
      then Inr (bounce ob b (unit (vsub (pos b) (opos ob))) 1)
      else Inr b)"
  using assms
  by (simp add: collide_folded bounce_def vmul_one normalize_unit vlength_pos_iff)

lemma collide_moving:
  assumes "\<not> length_squared (travel b) < 1 / 100000000"
  shows "collide ob b dt =
     (if quad_disc ob b < 0 then Inr b
      else if in_frame (root1 ob b) \<or> in_frame (root2 ob b) then
        (case normalize (vsub (path_point b (impact_time ob b)) (opos ob)) of
           Inl e \<Rightarrow> Inl e
         | Inr n \<Rightarrow> Inr (bounce ob b n (10001 / 10000)))
      else Inr b)"
proof -
  have a: "2 * quad_a b \<noteq> 0"
    using assms by (simp add: quad_a_def dot_def length_squared_def)
  have d1: "py_div (- quad_b ob b - sqrt (quad_disc ob b)) (2 * quad_a b) = Inr (root1 ob b)"
    unfolding root1_def using a by (rule py_div_nonzero)
  have d2: "py_div (- quad_b ob b + sqrt (quad_disc ob b)) (2 * quad_a b) = Inr (root2 ob b)"
    unfolding root2_def using a by (rule py_div_nonzero)
  show ?thesis
  proof (cases "quad_disc ob b < 0")
    case True
    then show ?thesis using assms by (simp add: collide_folded)
  next
    case False
    then have s: "py_sqrt (quad_disc ob b) = Inr (sqrt (quad_disc ob b))"
      by (rule py_sqrt_nonneg)
    have "collide ob b dt =
        (if in_frame (if in_frame (root1 ob b) then root1 ob b
                      else if in_frame (root2 ob b) then root2 ob b else - 1)
         then (case normalize
                     (vsub (path_point b (if in_frame (root1 ob b) then root1 ob b
                                          else if in_frame (root2 ob b) then root2 ob b
                                          else - 1))
                           (opos ob)) of
                 Inl e \<Rightarrow> Inl e
               | Inr normal \<Rightarrow> Inr (bounce ob b normal (10001 / 10000)))
         else Inr b)"
      by (simp only: collide_folded assms False s d1 d2 if_False sum.case)
    with False show ?thesis
      by (simp add: impact_time_def not_in_frame_neg)
  qed
qed

lemma quad_root_formula:
  fixes a b c s :: real
  assumes a: "0 < a" and root: "a * (s * s) + b * s + c = 0"
  shows "0 \<le> b * b - 4 * a * c \<and>
         (s = (- b - sqrt (b * b - 4 * a * c)) / (2 * a) \<or>
          s = (- b + sqrt (b * b - 4 * a * c)) / (2 * a))"
proof -
  define w where "w = 2 * a * s + b"
  have "w * w = 4 * a * (a * (s * s) + b * s + c) + (b * b - 4 * a * c)"
    by (simp add: w_def algebra_simps)
  with root have sq: "w * w = b * b - 4 * a * c" by simp
  then have D: "0 \<le> b * b - 4 * a * c"
    using zero_le_square[of w] by simp
  from sq have "sqrt (b * b - 4 * a * c) = \<bar>w\<bar>"
    using real_sqrt_abs2[of w] by simp
  then have "w = sqrt (b * b - 4 * a * c) \<or> w = - sqrt (b * b - 4 * a * c)"
    by linarith
  then have "s = (- b + sqrt (b * b - 4 * a * c)) / (2 * a) \<or>
             s = (- b - sqrt (b * b - 4 * a * c)) / (2 * a)"
    using a by (auto simp add: w_def field_simps)
  with D show ?thesis by blast
qed

lemma quad_formula_is_root:
  fixes a b c r :: real
  assumes a: "0 < a" and r: "r * r = b * b - 4 * a * c"
  shows "a * (((- b + r) / (2 * a)) * ((- b + r) / (2 * a))) + b * ((- b + r) / (2 * a)) + c = 0"
proof -
  have "4 * a * (a * (((- b + r) / (2 * a)) * ((- b + r) / (2 * a)))
          + b * ((- b + r) / (2 * a)) + c)
        = (- b + r) * (- b + r) + 2 * b * (- b + r) + 4 * a * c"
    using a by (simp add: field_simps)
  also have "\<dots> = r * r - (b * b - 4 * a * c)"
    by (simp add: algebra_simps)
  also have "\<dots> = 0" using r by simp
  finally show ?thesis using a by simp
qed

lemma moving_a_pos:
  assumes "\<not> length_squared (travel b) < 1 / 100000000"
  shows "0 < quad_a b"
  using assms by (simp add: quad_a_def dot_def length_squared_def)

lemma path_quadratic:
  "dot (vsub (path_point b t) (opos ob)) (vsub (path_point b t) (opos ob))
     - combined_radius ob b * combined_radius ob b
   = quad_a b * (t * t) + quad_b ob b * t + quad_c ob b"
  by (simp add: quad_defs vec_defs algebra_simps)

lemma root1_is_root:
  assumes "0 < quad_a b" "0 \<le> quad_disc ob b"
  shows "quad_a b * (root1 ob b * root1 ob b) + quad_b ob b * root1 ob b + quad_c ob b = 0"
proof -
  have "(- sqrt (quad_disc ob b)) * (- sqrt (quad_disc ob b))
          = quad_b ob b * quad_b ob b - 4 * quad_a b * quad_c ob b"
    using assms(2) by (simp add: quad_disc_def)
  from quad_formula_is_root[OF assms(1) this] show ?thesis
    by (simp add: root1_def)
qed

lemma root2_is_root:
  assumes "0 < quad_a b" "0 \<le> quad_disc ob b"
  shows "quad_a b * (root2 ob b * root2 ob b) + quad_b ob b * root2 ob b + quad_c ob b = 0"
proof -
  have "sqrt (quad_disc ob b) * sqrt (quad_disc ob b)
          = quad_b ob b * quad_b ob b - 4 * quad_a b * quad_c ob b"
    using assms(2) by (simp add: quad_disc_def)
  from quad_formula_is_root[OF assms(1) this] show ?thesis
    by (simp add: root2_def)
qed

lemma root_order:
  assumes "0 < quad_a b" "0 \<le> quad_disc ob b"
  shows "root1 ob b \<le> root2 ob b"
  using assms by (simp add: root1_def root2_def divide_right_mono)

lemma root_cases:
  assumes "0 < quad_a b"
    and "quad_a b * (s * s) + quad_b ob b * s + quad_c ob b = 0"
  shows "0 \<le> quad_disc ob b \<and> (s = root1 ob b \<or> s = root2 ob b)"
  using quad_root_formula[OF assms] by (simp add: quad_disc_def root1_def root2_def)

lemma impact_time_is_root:
  assumes "0 < quad_a b" "0 \<le> quad_disc ob b"
  shows "quad_a b * (impact_time ob b * impact_time ob b)
           + quad_b ob b * impact_time ob b + quad_c ob b = 0"
  using root1_is_root[OF assms] root2_is_root[OF assms] by (simp add: impact_time_def)

lemma impact_time_earliest:
  assumes a: "0 < quad_a b"
    and s: "in_frame s" "quad_a b * (s * s) + quad_b ob b * s + quad_c ob b = 0"
  shows "in_frame (impact_time ob b) \<and> impact_time ob b \<le> s"
proof -
  from root_cases[OF a s(2)] have D: "0 \<le> quad_disc ob b"
    and rs: "s = root1 ob b \<or> s = root2 ob b" by simp_all
  note ord = root_order[OF a D]
  show ?thesis
  proof (cases "in_frame (root1 ob b)")
    case True
    with rs ord show ?thesis by (auto simp add: impact_time_def)
  next
    case False
    with rs s(1) have "s = root2 ob b" by auto
    with False s(1) show ?thesis by (simp add: impact_time_def)
  qed
qed

lemma impact_point_distance:
  assumes "0 < quad_a b" "0 \<le> quad_disc ob b"
  shows "dot (vsub (path_point b (impact_time ob b)) (opos ob))
             (vsub (path_point b (impact_time ob b)) (opos ob))
         = combined_radius ob b * combined_radius ob b"
  using path_quadratic[of b "impact_time ob b" ob] impact_time_is_root[OF assms] by simp

lemma impact_point_vlength:
  assumes "0 < quad_a b" "0 \<le> quad_disc ob b"
  shows "vlength (vsub (path_point b (impact_time ob b)) (opos ob)) = \<bar>combined_radius ob b\<bar>"
  by (simp add: vlength_sqrt_dot impact_point_distance[OF assms])

lemma unit_dot:
  assumes "vlength v \<noteq> 0"
  shows "dot (unit v) (unit v) = 1"
proof -
  have "dot (unit v) (unit v) = dot v v / (vlength v * vlength v)"
    by (simp add: unit_def dot_def add_divide_distrib)
  moreover have "vlength v * vlength v \<noteq> 0" using assms by simp
  ultimately show ?thesis by (simp add: vlength_sq)
qed

lemma vlength_unit: "vlength v \<noteq> 0 \<Longrightarrow> vlength (unit v) = 1"
  by (simp add: vlength_sqrt_dot[of "unit v"] unit_dot)

lemma reflect_dot:
  "dot (reflect v n) (reflect v n) = dot v v + 4 * (dot v n * dot v n) * (dot n n - 1)"
  by (simp add: reflect_def vec_defs algebra_simps)

lemma vlength_reflect:
  assumes "dot n n = 1"
  shows "vlength (reflect v n) = vlength v"
  by (simp add: vlength_sqrt_dot reflect_dot assms)

lemma normalize_cases:
  obtains (zero) "vlength v = 0" "normalize v = Inl ValueError"
        | (unit) "vlength v \<noteq> 0" "normalize v = Inr (unit v)"
  using normalize_zero normalize_unit by blast

lemma collide_cases:
  obtains (raise) "collide ob b dt = Inl ValueError" "combined_radius ob b = 0"
        | (unchanged) "collide ob b dt = Inr b"
        | (bounced) n s where "dot n n = 1" "s = 1 \<or> s = 10001 / 10000"
                              "collide ob b dt = Inr (bounce ob b n s)"
proof (cases "length_squared (travel b) < 1 / 100000000")
  case True
  show ?thesis
  proof (cases "vlength (vsub (pos b) (opos ob)) < combined_radius ob b \<and>
                vlength (vsub (pos b) (opos ob)) \<noteq> 0")
    case hit: True
    then have "dot (unit (vsub (pos b) (opos ob))) (unit (vsub (pos b) (opos ob))) = 1"
      by (simp add: unit_dot)
    moreover have "collide ob b dt = Inr (bounce ob b (unit (vsub (pos b) (opos ob))) 1)"
      using hit by (simp add: collide_static[OF True])
    ultimately show ?thesis using bounced by blast
  next
    case False
    then have "collide ob b dt = Inr b" using collide_static[OF True, of ob dt] by auto
    then show ?thesis by (rule unchanged)
  qed
next
  case False
  note mv = collide_moving[OF False, of ob dt]
  have a: "0 < quad_a b" using False by (rule moving_a_pos)
  show ?thesis
  proof (cases "0 \<le> quad_disc ob b \<and> (in_frame (root1 ob b) \<or> in_frame (root2 ob b))")
    case nohit: False
    then have "collide ob b dt = Inr b" using mv by auto
    then show ?thesis by (rule unchanged)
  next
    case hit: True
    then have D: "0 \<le> quad_disc ob b" by simp
    let ?w = "vsub (path_point b (impact_time ob b)) (opos ob)"
    have len: "vlength ?w = \<bar>combined_radius ob b\<bar>"
      using a D by (rule impact_point_vlength)
    show ?thesis
    proof (cases ?w rule: normalize_cases)
      case zero
      with len have "combined_radius ob b = 0" by simp
      moreover have "collide ob b dt = Inl ValueError"
        using hit mv zero(2) by auto
      ultimately show ?thesis using raise by blast
    next
      case unit
      then have "dot (unit ?w) (unit ?w) = 1" by (simp add: unit_dot)
      moreover have "collide ob b dt = Inr (bounce ob b (unit ?w) (10001 / 10000))"
        using hit mv unit(2) by auto
      ultimately show ?thesis using bounced by blast
    qed
  qed
qed

lemma obst1_fields:
  "opos obst1 = Vector2 0 0" "oradius obst1 = 2" "odamping obst1 = 1 / 4"
  by (simp_all add: obst1_def)

lemma ball4_fields:
  "pos ball4 = Vector2 5 0" "velocity ball4 = Vector2 20 5" "radius ball4 = 1"
  "prev_pos ball4 = Vector2 (- 5) 0"
  by (simp_all add: ball4_def)

lemma sqrt_3600: "sqrt 3600 = 60"
  by (rule real_sqrt_unique) simp_all

lemma ball4_quad:
  "travel ball4 = Vector2 10 0"
  "combined_radius obst1 ball4 = 3"
  "quad_a ball4 = 100"
  "quad_b obst1 ball4 = - 100"
  "quad_c obst1 ball4 = 16"
  "quad_disc obst1 ball4 = 3600"
  by (simp_all add: quad_defs vec_defs ball4_fields obst1_fields)

lemma ball4_roots:
  "root1 obst1 ball4 = 1 / 5"
  "root2 obst1 ball4 = 4 / 5"
  "impact_time obst1 ball4 = 1 / 5"
  by (simp_all add: impact_time_def in_frame_def root1_def root2_def ball4_quad sqrt_3600)

lemma ball4_path:
  "path_point ball4 (1 / 5) = Vector2 (- 3) 0"
  "path_point ball4 (4 / 5) = Vector2 3 0"
  by (simp_all add: path_point_def ball4_quad vec_defs ball4_fields)


lemma ball4_bounce:
  "bounce obst1 ball4 (Vector2 (- 1) 0) (10001 / 10000) = ball4_bounced"
  by (simp add: bounce_def ball4_quad ball4_bounced_def obst1_fields ball4_fields vec_defs
        reflect_def)

lemma ball4_moved: "\<not> length_squared (travel ball4) < 1 / 100000000"
  by (simp add: ball4_quad length_squared_def)

text \<open>
  C2. In the moving case (squared displacement not below \<open>1e-8\<close>) \<^verbatim>\<open>collide\<close> solves
  \<open>a t\<^sup>2 + b t + c = 0\<close> with \<open>a = d.d\<close>, \<open>b = 2*(f.d)\<close>, \<open>c = f.f - r\<^sup>2\<close>. With a
  negative discriminant, or with neither root in \<open>[0, 1]\<close>, the ball is returned as it
  is. Otherwise the time chosen is the first root if it lies in \<open>[0, 1]\<close> and else the
  second; it lies in \<open>[0, 1]\<close> and is the earliest root there; and with \<open>normal\<close> the
  normalised vector from the centre to the point of the path at that time, the ball gets
  the position \<open>center + normal * r * 1.0001\<close> and the velocity reflected about
  \<open>normal\<close> and scaled by the damping of the obstacle.
\<close>

theorem collide_swept_response:
  assumes "\<not> length_squared (travel b) < 1 / 100000000"
  shows "(quad_disc ob b < 0 \<longrightarrow> collide ob b dt = Inr b) \<and>
         (\<not> in_frame (root1 ob b) \<and> \<not> in_frame (root2 ob b) \<longrightarrow> collide ob b dt = Inr b) \<and>
         (0 \<le> quad_disc ob b \<and> (in_frame (root1 ob b) \<or> in_frame (root2 ob b)) \<longrightarrow>
            in_frame (impact_time ob b) \<and>
            (\<forall>s. in_frame s \<and> quad_a b * (s * s) + quad_b ob b * s + quad_c ob b = 0
                   \<longrightarrow> impact_time ob b \<le> s) \<and>
            (\<forall>n. normalize (vsub (path_point b (impact_time ob b)) (opos ob)) = Inr n \<longrightarrow>
                 collide ob b dt = Inr (bounce ob b n (10001 / 10000))))"
proof (intro conjI impI allI)
  note mv = collide_moving[OF assms, of ob dt]
  have a: "0 < quad_a b" using assms by (rule moving_a_pos)
  show "collide ob b dt = Inr b" if "quad_disc ob b < 0"
    using that mv by simp
  show "collide ob b dt = Inr b" if "\<not> in_frame (root1 ob b) \<and> \<not> in_frame (root2 ob b)"
    using that mv by simp
  show "in_frame (impact_time ob b)"
    if "0 \<le> quad_disc ob b \<and> (in_frame (root1 ob b) \<or> in_frame (root2 ob b))"
    using that by (auto simp add: impact_time_def)
  show "impact_time ob b \<le> s"
    if "in_frame s \<and> quad_a b * (s * s) + quad_b ob b * s + quad_c ob b = 0" for s
    using impact_time_earliest[OF a, of s ob] that by simp
  show "collide ob b dt = Inr (bounce ob b n (10001 / 10000))"
    if "0 \<le> quad_disc ob b \<and> (in_frame (root1 ob b) \<or> in_frame (root2 ob b))"
      and "normalize (vsub (path_point b (impact_time ob b)) (opos ob)) = Inr n" for n
    using that mv by auto
qed

theorem collide_swept_response_witness:
  "\<not> length_squared (travel ball4) < 1 / 100000000 \<and>
   0 \<le> quad_disc obst1 ball4 \<and> in_frame (root1 obst1 ball4) \<and>
   normalize (vsub (path_point ball4 (impact_time obst1 ball4)) (opos obst1))
     = Inr (Vector2 (- 1) 0) \<and>
   impact_time obst1 ball4 = 1 / 5 \<and>
   collide obst1 ball4 (1 / 60) = Inr ball4_bounced"
proof -
  have n: "normalize (vsub (path_point ball4 (impact_time obst1 ball4)) (opos obst1))
             = Inr (Vector2 (- 1) 0)"
    by (simp add: ball4_roots ball4_path normalize_def obst1_fields vsub_def vlength_axis_x)
  have f: "in_frame (root1 obst1 ball4)"
    by (simp add: ball4_roots in_frame_def)
  show ?thesis
    using collide_swept_response [OF ball4_moved, of obst1 "1 / 60"] n f ball4_moved
    by (simp add: ball4_quad ball4_roots ball4_bounce)
qed

lemma path_point_ends: "path_point b 0 = prev_pos b \<and> path_point b 1 = pos b"
  by (cases "pos b"; cases "prev_pos b") (simp add: path_point_def travel_def vec_defs)

lemma bounce_distance:
  assumes "dot n n = 1" "0 \<le> combined_radius ob b * s"
  shows "vlength (vsub (pos (bounce ob b n s)) (opos ob)) = combined_radius ob b * s"
proof -
  have "vsub (pos (bounce ob b n s)) (opos ob) = vmul n (combined_radius ob b * s)"
    by (simp add: bounce_def vec_defs algebra_simps)
  moreover have "vlength n = 1" using assms(1) by (simp add: vlength_sqrt_dot)
  ultimately show ?thesis using assms(2) by (simp add: vlength_vmul)
qed

text \<open>
  In exact arithmetic there is no tunnelling. Let the combined radius of obstacle and
  ball be positive and let the ball have moved by at least \<open>1e-8\<close> in squared distance.
  If the segment from the previous position to the position meets the circle of the
  combined radius around the centre of the obstacle at some time \<open>s\<close> in \<open>[0, 1]\<close>,
  wherever the end of the segment lies, then \<^verbatim>\<open>collide\<close> resolves the collision at the
  earliest such time. This is a fact about the real numbers: where the path only grazes
  the circle the discriminant is zero, and the sign of the floating point discriminant
  of the program is then decided by rounding.
\<close>

lemma exact_no_tunneling:
  assumes rpos: "0 < combined_radius ob b"
    and moved: "1 / 100000000 \<le> length_squared (travel b)"
    and cross: "in_frame s" "vlength (vsub (path_point b s) (opos ob)) = combined_radius ob b"
  shows "in_frame (impact_time ob b) \<and> impact_time ob b \<le> s \<and>
         vlength (vsub (path_point b (impact_time ob b)) (opos ob)) = combined_radius ob b \<and>
         collide ob b dt =
           Inr (bounce ob b (unit (vsub (path_point b (impact_time ob b)) (opos ob)))
                  (10001 / 10000)) \<and>
         vlength (vsub (pos (bounce ob b
                    (unit (vsub (path_point b (impact_time ob b)) (opos ob))) (10001 / 10000)))
                  (opos ob))
           = combined_radius ob b * (10001 / 10000)"
proof -
  let ?r = "combined_radius ob b"
  let ?w = "vsub (path_point b (impact_time ob b)) (opos ob)"
  have r: "0 < ?r" using rpos .
  have mv: "\<not> length_squared (travel b) < 1 / 100000000" using moved by simp
  have a: "0 < quad_a b" using mv by (rule moving_a_pos)
  have "dot (vsub (path_point b s) (opos ob)) (vsub (path_point b s) (opos ob)) = ?r * ?r"
    using cross(2) vlength_sq[of "vsub (path_point b s) (opos ob)"] by simp
  then have root: "quad_a b * (s * s) + quad_b ob b * s + quad_c ob b = 0"
    using path_quadratic[of b s ob] by simp
  from root_cases[OF a root] have D: "0 \<le> quad_disc ob b" by simp
  from impact_time_earliest[OF a cross(1) root]
  have t: "in_frame (impact_time ob b)" "impact_time ob b \<le> s" by simp_all
  have len: "vlength ?w = ?r"
    using impact_point_vlength[OF a D] r by simp
  with r have nz: "vlength ?w \<noteq> 0" by simp
  have hit: "in_frame (root1 ob b) \<or> in_frame (root2 ob b)"
    using t(1) by (auto simp add: impact_time_def split: if_splits)
  have res: "collide ob b dt = Inr (bounce ob b (unit ?w) (10001 / 10000))"
    using collide_moving[OF mv, of ob dt] D hit normalize_unit[OF nz] by simp
  have "vlength (vsub (pos (bounce ob b (unit ?w) (10001 / 10000))) (opos ob))
          = ?r * (10001 / 10000)"
    using r by (intro bounce_distance unit_dot nz) simp
  with t len res show ?thesis by simp
qed

section \<open>Damping\<close>

lemma edge_resolve_speed:
  assumes "edge_hit b pts i"
  shows "vlength (velocity (edge_resolve b pts k i)) = \<bar>k\<bar> * vlength (velocity b)"
proof -
  from assms have "vlength (vsub (pos b) (edge_nearest b pts i)) \<noteq> 0"
    by (simp add: edge_hit_def edge_dist_def)
  then have "dot (unit (vsub (pos b) (edge_nearest b pts i)))
                 (unit (vsub (pos b) (edge_nearest b pts i))) = 1"
    by (rule unit_dot)
  then show ?thesis
    by (simp add: edge_resolve_def Let_def vlength_vmul vlength_reflect)
qed

lemma bounce_speed:
  assumes "dot n n = 1"
  shows "vlength (velocity (bounce ob b n s)) = \<bar>odamping ob\<bar> * vlength (velocity b)"
  using assms by (simp add: bounce_def vlength_vmul vlength_reflect)

lemma scaled_speed:
  fixes k v v' :: real
  assumes "0 \<le> k" "k \<le> 1" "0 \<le> v" "v' = \<bar>k\<bar> * v"
  shows "v' = k * v \<and> v' \<le> v \<and> (v' = v \<longleftrightarrow> k = 1 \<or> v = 0)"
proof -
  from assms have eq: "v' = k * v" by simp
  moreover have "k * v \<le> 1 * v" using assms by (intro mult_right_mono) simp_all
  moreover have "k * v = v \<longleftrightarrow> k = 1 \<or> v = 0" by auto
  ultimately show ?thesis by simp
qed

text \<open>
  In exact arithmetic the reflection about a unit normal keeps the length of the
  velocity, so that for a damping \<open>k\<close> in \<open>[0, 1]\<close> the speed after a resolved collision
  is \<open>k\<close> times the speed before. This is a fact about the real numbers: the floating
  point result of the program can differ from it by rounding, at \<open>k = 1\<close> also upwards.
\<close>

lemma exact_speed_scaled:
  assumes "0 \<le> k" "k \<le> 1"
  shows "(handle_polygon_collision b pts k = Inr (b', True) \<longrightarrow>
            vlength (velocity b') = k * vlength (velocity b) \<and>
            vlength (velocity b') \<le> vlength (velocity b) \<and>
            (vlength (velocity b') = vlength (velocity b)
               \<longleftrightarrow> k = 1 \<or> vlength (velocity b) = 0)) \<and>
         (odamping ob = k \<and> collide ob b dt = Inr b'' \<and> b'' \<noteq> b \<longrightarrow>
            vlength (velocity b'') = k * vlength (velocity b) \<and>
            vlength (velocity b'') \<le> vlength (velocity b) \<and>
            (vlength (velocity b'') = vlength (velocity b)
               \<longleftrightarrow> k = 1 \<or> vlength (velocity b) = 0))"
proof (intro conjI impI)
  assume h: "handle_polygon_collision b pts k = Inr (b', True)"
  have "vlength (velocity b') = \<bar>k\<bar> * vlength (velocity b)"
  proof (cases rule: handle_cases[of pts b k])
    case miss
    with h show ?thesis by simp
  next
    case (hit i)
    with h have "b' = edge_resolve b pts k i" by simp
    with hit(2) show ?thesis by (simp add: edge_resolve_speed)
  qed
  from scaled_speed[OF assms vlength_nonneg this]
  show "vlength (velocity b') = k * vlength (velocity b)"
    and "vlength (velocity b') \<le> vlength (velocity b)"
    and "vlength (velocity b') = vlength (velocity b) \<longleftrightarrow> k = 1 \<or> vlength (velocity b) = 0"
    by blast+
next
  assume h: "odamping ob = k \<and> collide ob b dt = Inr b'' \<and> b'' \<noteq> b"
  have "vlength (velocity b'') = \<bar>k\<bar> * vlength (velocity b)"
  proof (cases rule: collide_cases[of ob b dt])
    case raise
    with h show ?thesis by simp
  next
    case unchanged
    with h have False by auto
    then show ?thesis ..
  next
    case (bounced n s)
    with h have "b'' = bounce ob b n s" by simp
    with bounced(1) h show ?thesis by (simp add: bounce_speed)
  qed
  from scaled_speed[OF assms vlength_nonneg this]
  show "vlength (velocity b'') = k * vlength (velocity b)"
    and "vlength (velocity b'') \<le> vlength (velocity b)"
    and "vlength (velocity b'') = vlength (velocity b) \<longleftrightarrow> k = 1 \<or> vlength (velocity b) = 0"
    by blast+
qed












section \<open>Frame of the collision handlers\<close>

lemma frame_fields:
  assumes "b' = b\<lparr>pos := p, velocity := v\<rparr>"
  shows "b' = b\<lparr>pos := pos b', velocity := velocity b'\<rparr> \<and>
         prev_pos b' = prev_pos b \<and> radius b' = radius b \<and> friction b' = friction b"
  using assms by simp

text \<open>
  C10. A call of \<^verbatim>\<open>handle_polygon_collision\<close> or of \<^verbatim>\<open>CircleObstacle.collide\<close> that
  returns changes at most the position and the velocity of the ball: the ball returned is
  the ball given with these two fields replaced, so previous position, radius, friction
  and colour are as before. Neither function assigns to the obstacle or to the polygon,
  which are arguments that are only read.
\<close>

theorem collision_frame:
  "(handle_polygon_collision b pts k = Inr (b', c) \<longrightarrow>
      b' = b\<lparr>pos := pos b', velocity := velocity b'\<rparr> \<and>
      prev_pos b' = prev_pos b \<and> radius b' = radius b \<and> friction b' = friction b) \<and>
   (collide ob b dt = Inr b'' \<longrightarrow>
      b'' = b\<lparr>pos := pos b'', velocity := velocity b''\<rparr> \<and>
      prev_pos b'' = prev_pos b \<and> radius b'' = radius b \<and> friction b'' = friction b)"
proof (intro conjI impI)
  assume h: "handle_polygon_collision b pts k = Inr (b', c)"
  have "\<exists>p v. b' = b\<lparr>pos := p, velocity := v\<rparr>"
  proof (cases rule: handle_cases[of pts b k])
    case miss
    with h have "b' = b\<lparr>pos := pos b, velocity := velocity b\<rparr>" by simp
    then show ?thesis by blast
  next
    case (hit i)
    with h have "b' = edge_resolve b pts k i" by simp
    then show ?thesis unfolding edge_resolve_def Let_def by blast
  qed
  then obtain p v where "b' = b\<lparr>pos := p, velocity := v\<rparr>" by blast
  from frame_fields[OF this]
  show "b' = b\<lparr>pos := pos b', velocity := velocity b'\<rparr>"
    and "prev_pos b' = prev_pos b" and "radius b' = radius b" and "friction b' = friction b"
    by blast+
next
  assume h: "collide ob b dt = Inr b''"
  have "\<exists>p v. b'' = b\<lparr>pos := p, velocity := v\<rparr>"
  proof (cases rule: collide_cases[of ob b dt])
    case raise
    with h show ?thesis by simp
  next
    case unchanged
    with h have "b'' = b\<lparr>pos := pos b, velocity := velocity b\<rparr>" by simp
    then show ?thesis by blast
  next
    case (bounced n s)
    with h have "b'' = bounce ob b n s" by simp
    then show ?thesis unfolding bounce_def by blast
  qed
  then obtain p v where "b'' = b\<lparr>pos := p, velocity := v\<rparr>" by blast
  from frame_fields[OF this]
  show "b'' = b\<lparr>pos := pos b'', velocity := velocity b''\<rparr>"
    and "prev_pos b'' = prev_pos b" and "radius b'' = radius b" and "friction b'' = friction b"
    by blast+
qed

theorem collision_frame_witness:
  "handle_polygon_collision ball2 square (3 / 5) =
     Inr (ball2\<lparr>pos := Vector2 50 8, velocity := Vector2 (9 / 5) (12 / 5)\<rparr>, True) \<and>
   prev_pos (ball2\<lparr>pos := Vector2 50 8, velocity := Vector2 (9 / 5) (12 / 5)\<rparr>) = Vector2 47 9 \<and>
   collide obst1 ball4 (1 / 60) = Inr ball4_bounced \<and>
   prev_pos ball4_bounced = Vector2 (- 5) 0 \<and> radius ball4_bounced = 1 \<and>
   friction ball4_bounced = 85 / 100"
proof -
  have h: "handle_polygon_collision ball2 square (3 / 5) =
             Inr (ball2\<lparr>pos := Vector2 50 8, velocity := Vector2 (9 / 5) (12 / 5)\<rparr>, True)"
    using handle_first_hit [of 0 square ball2 "3 / 5"] ball2_hit ball2_resolve
    by (simp add: square_def)
  have c: "collide obst1 ball4 (1 / 60) = Inr ball4_bounced"
    using collide_moving [OF ball4_moved, of obst1 "1 / 60"]
    by (simp add: ball4_quad ball4_roots in_frame_def ball4_path ball4_bounce
          normalize_def obst1_fields vsub_def vlength_axis_x)
  show ?thesis
    using collision_frame [where b = ball2 and pts = square and k = "3 / 5" and c = True
            and b' = "ball2\<lparr>pos := Vector2 50 8, velocity := Vector2 (9 / 5) (12 / 5)\<rparr>"]
          collision_frame [where ob = obst1 and b = ball4 and dt = "1 / 60"
            and b'' = ball4_bounced]
          h c
    by (simp add: ball2_def ball4_def)
qed

section \<open>Degenerate cases\<close>

lemma handle_never_raises: "\<exists>res. handle_polygon_collision b pts k = Inr res"
  by (cases rule: handle_cases[of pts b k]) blast+

lemma nearest_zero_edge: "nearest_point p a a = a"
  by (simp add: nearest_point_def vec_defs)

lemma zero_edge_division: "py_div (dot (vsub p a) (vsub a a)) (dot (vsub a a) (vsub a a))
    = Inl ZeroDivisionError"
  by (simp add: py_div_def vec_defs)

text \<open>
  C8 (amended). A boundary edge of length zero is not skipped. The projection onto it
  would divide by zero (a \<^verbatim>\<open>ZeroDivisionError\<close>); the guard of
  \<^verbatim>\<open>get_nearest_point_on_segment\<close> returns the single point \<open>a\<close> of the edge instead,
  so that the function raises for no input, and the ball collides with that point like
  with any other nearest point. \<^verbatim>\<open>handle_polygon_collision\<close> never raises, and edges
  whose nearest point is at distance exactly zero from the ball are skipped: if every
  edge is at distance zero or at least the radius, the ball is returned unchanged with
  false. \<^verbatim>\<open>CircleObstacle.collide\<close> returns the ball unchanged in the static case when
  the ball sits on the centre of the obstacle, and in the moving case when the
  discriminant is negative; it raises nothing when the combined radius is not zero.
\<close>

theorem degeneracies_handled:
  "get_nearest_point_on_segment p a a = Inr a \<and>
   py_div (dot (vsub p a) (vsub a a)) (dot (vsub a a) (vsub a a)) = Inl ZeroDivisionError \<and>
   (\<exists>n. get_nearest_point_on_segment p a c = Inr n) \<and>
   (\<exists>res. handle_polygon_collision b pts k = Inr res) \<and>
   ((\<forall>i<length pts. edge_dist b pts i = 0 \<or> radius b \<le> edge_dist b pts i) \<longrightarrow>
      handle_polygon_collision b pts k = Inr (b, False)) \<and>
   (length_squared (travel b) < 1 / 100000000 \<and> vlength (vsub (pos b) (opos ob)) = 0 \<longrightarrow>
      collide ob b dt = Inr b) \<and>
   (\<not> length_squared (travel b) < 1 / 100000000 \<and> quad_disc ob b < 0 \<longrightarrow>
      collide ob b dt = Inr b) \<and>
   (combined_radius ob b \<noteq> 0 \<longrightarrow> (\<exists>b'. collide ob b dt = Inr b'))"
proof (intro conjI impI)
  show "get_nearest_point_on_segment p a a = Inr a"
    by (simp add: get_nearest_point_on_segment_eq nearest_zero_edge)
  show "py_div (dot (vsub p a) (vsub a a)) (dot (vsub a a) (vsub a a)) = Inl ZeroDivisionError"
    by (rule zero_edge_division)
  show "\<exists>n. get_nearest_point_on_segment p a c = Inr n"
    by (simp add: get_nearest_point_on_segment_eq)
  show "\<exists>res. handle_polygon_collision b pts k = Inr res" by (rule handle_never_raises)
  show "handle_polygon_collision b pts k = Inr (b, False)"
    if "\<forall>i<length pts. edge_dist b pts i = 0 \<or> radius b \<le> edge_dist b pts i"
  proof (rule handle_no_hit)
    from that show "\<forall>i<length pts. \<not> edge_hit b pts i"
      by (auto simp add: edge_hit_def)
  qed
  show "collide ob b dt = Inr b"
    if "length_squared (travel b) < 1 / 100000000 \<and> vlength (vsub (pos b) (opos ob)) = 0"
    using that collide_static[of b ob dt] by simp
  show "collide ob b dt = Inr b"
    if "\<not> length_squared (travel b) < 1 / 100000000 \<and> quad_disc ob b < 0"
    using that collide_moving[of b ob dt] by simp
  show "\<exists>b'. collide ob b dt = Inr b'" if "combined_radius ob b \<noteq> 0"
    using that by (cases rule: collide_cases[of ob b dt]) simp_all
qed

lemma sqrt_25: "sqrt 25 = 5"
  by (rule real_sqrt_unique) simp_all

lemma ball6_fields:
  "pos ball6 = Vector2 3 4" "velocity ball6 = Vector2 0 (- 2)" "radius ball6 = 8"
  by (simp_all add: ball6_def)

lemma ball6_nearest:
  "edge_nearest ball6 dup_polygon 0 = Vector2 0 0"
  "edge_nearest ball6 dup_polygon (Suc 0) = Vector2 3 0"
  by (simp_all add: edge_nearest_def dup_polygon_def nearest_point_def vec_defs ball6_fields)

lemma ball6_dist:
  "edge_dist ball6 dup_polygon 0 = 5"
  "edge_dist ball6 dup_polygon (Suc 0) = 4"
  by (simp_all add: edge_dist_def ball6_nearest ball6_fields vsub_def vlength_axis_y)
     (simp add: vlength_def sqrt_25)

lemma ball6_hit: "edge_hit ball6 dup_polygon 0" "edge_hit ball6 dup_polygon (Suc 0)"
  by (simp_all add: edge_hit_def ball6_dist ball6_fields)

lemma ball6_resolve:
  "edge_resolve ball6 dup_polygon (1 / 2) 0
     = ball6\<lparr>pos := Vector2 (24 / 5) (32 / 5), velocity := Vector2 (24 / 25) (7 / 25)\<rparr>"
  "edge_resolve ball6 dup_polygon (1 / 2) (Suc 0)
     = ball6\<lparr>pos := Vector2 3 8, velocity := Vector2 0 1\<rparr>"
proof -
  have l: "vlength (Vector2 3 4) = 5" "vlength (Vector2 0 4) = 4"
    by (simp_all add: vlength_def sqrt_25)
  show "edge_resolve ball6 dup_polygon (1 / 2) 0
     = ball6\<lparr>pos := Vector2 (24 / 5) (32 / 5), velocity := Vector2 (24 / 25) (7 / 25)\<rparr>"
    by (simp add: edge_resolve_def ball6_nearest Let_def ball6_fields unit_def vsub_def l
          vadd_def vmul_def reflect_def dot_def)
  show "edge_resolve ball6 dup_polygon (1 / 2) (Suc 0)
     = ball6\<lparr>pos := Vector2 3 8, velocity := Vector2 0 1\<rparr>"
    by (simp add: edge_resolve_def ball6_nearest Let_def ball6_fields unit_def vsub_def l
          vadd_def vmul_def reflect_def dot_def)
qed

lemma ball6_with_edge0:
  "handle_polygon_collision ball6 dup_polygon (1 / 2)
     = Inr (ball6\<lparr>pos := Vector2 (24 / 5) (32 / 5), velocity := Vector2 (24 / 25) (7 / 25)\<rparr>,
            True)"
  using handle_first_hit [of 0 dup_polygon ball6 "1 / 2"] ball6_hit(1) ball6_resolve(1)
  by (simp add: dup_polygon_def)

lemma ball6_without_edge0:
  "polygon_loop ball6 dup_polygon (1 / 2) [1, 2, 3, 4]
     = Inr (ball6\<lparr>pos := Vector2 3 8, velocity := Vector2 0 1\<rparr>, True)"
  by (simp add: polygon_loop_find ball6_hit(2) ball6_resolve(2))

text \<open>
  An edge of length zero is not skipped. The first edge of \<open>dup_polygon\<close> joins a vertex to
  itself, and the ball at \<open>(3, 4)\<close> is pushed away from that vertex along the diagonal,
  to \<open>(24/5, 32/5)\<close>. Had the loop skipped that edge and gone on with the edges
  \<open>1, 2, 3, 4\<close>, the next edge would have pushed the ball straight up, to \<open>(3, 8)\<close>.
\<close>

theorem zero_length_edge_counterexample:
  "length_squared (vsub (dup_polygon ! 1) (dup_polygon ! 0)) = 0 \<and>
   handle_polygon_collision ball6 dup_polygon (1 / 2)
     = Inr (ball6\<lparr>pos := Vector2 (24 / 5) (32 / 5), velocity := Vector2 (24 / 25) (7 / 25)\<rparr>,
            True) \<and>
   polygon_loop ball6 dup_polygon (1 / 2) [1, 2, 3, 4]
     = Inr (ball6\<lparr>pos := Vector2 3 8, velocity := Vector2 0 1\<rparr>, True) \<and>
   Vector2 (24 / 5) (32 / 5) \<noteq> Vector2 3 8"
  using ball6_with_edge0 ball6_without_edge0
  by (simp add: dup_polygon_def vec_defs)

lemma ball7_dists:
  "edge_dist ball7 square 0 = 0"
  "edge_dist ball7 square (Suc 0) = 100"
  "edge_dist ball7 square 2 = 100"
  "edge_dist ball7 square 3 = 0"
  by (simp_all add: edge_dist_def edge_nearest_def square_def ball7_def
        nearest_point_def vec_defs Let_def vlength_axis_x vlength_axis_y)

lemma ball7_skipped:
  "\<forall>i<length square. edge_dist ball7 square i = 0 \<or> radius ball7 \<le> edge_dist ball7 square i"
proof (intro allI impI)
  fix i assume "i < length square"
  then have "i < 4" by (simp add: square_def)
  then consider "i = 0" | "i = Suc 0" | "i = 2" | "i = 3" by linarith
  then show "edge_dist ball7 square i = 0 \<or> radius ball7 \<le> edge_dist ball7 square i"
    by cases (simp_all add: ball7_dists, simp_all add: ball7_def)
qed

lemma ball7_static:
  "length_squared (travel ball7) < 1 / 100000000 \<and> vlength (vsub (pos ball7) (opos obst1)) = 0"
  by (simp add: travel_def ball7_def obst1_fields vec_defs vlength_def)

lemma ball9_misses:
  "\<not> length_squared (travel ball9) < 1 / 100000000 \<and> quad_disc obst1 ball9 < 0"
  by (simp add: quad_defs vec_defs ball9_def obst1_fields)

theorem degeneracies_handled_witness:
  "radius ball7 = 8 \<and>
   edge_dist ball7 square 0 = 0 \<and> edge_dist ball7 square 1 = 100 \<and>
   edge_dist ball7 square 2 = 100 \<and> edge_dist ball7 square 3 = 0 \<and>
   handle_polygon_collision ball7 square (3 / 5) = Inr (ball7, False) \<and>
   length_squared (travel ball7) < 1 / 100000000 \<and>
   vlength (vsub (pos ball7) (opos obst1)) = 0 \<and>
   collide obst1 ball7 (1 / 60) = Inr ball7 \<and>
   \<not> length_squared (travel ball9) < 1 / 100000000 \<and> quad_disc obst1 ball9 < 0 \<and>
   collide obst1 ball9 (1 / 60) = Inr ball9 \<and>
   combined_radius obst1 ball9 \<noteq> 0"
proof -
  note d7 = degeneracies_handled [where b = ball7 and pts = square and k = "3 / 5"
              and ob = obst1 and dt = "1 / 60"]
  note d9 = degeneracies_handled [where b = ball9 and ob = obst1 and dt = "1 / 60"]
  have rad: "radius ball7 = 8" by (simp add: ball7_def)
  have d: "edge_dist ball7 square 0 = 0" "edge_dist ball7 square 1 = 100"
    "edge_dist ball7 square 2 = 100" "edge_dist ball7 square 3 = 0"
    using ball7_dists by simp_all
  have r: "combined_radius obst1 ball9 \<noteq> 0"
    by (simp add: combined_radius_def obst1_fields ball9_def)
  have h: "handle_polygon_collision ball7 square (3 / 5) = Inr (ball7, False)"
    using d7 ball7_skipped by blast
  have c7: "collide obst1 ball7 (1 / 60) = Inr ball7"
    using d7 ball7_static by blast
  have c9: "collide obst1 ball9 (1 / 60) = Inr ball9"
    using d9 ball9_misses by blast
  from rad d h ball7_static c7 ball9_misses c9 r show ?thesis
    by (intro conjI) blast+
qed

section \<open>The rest state\<close>

lemma vadd_zero: "vadd p (Vector2 0 0) = p"
  by (cases p) (simp add: vadd_def)

lemma update_rest:
  assumes "velocity b = Vector2 0 0"
  shows "update b dt = b\<lparr>prev_pos := pos b\<rparr>"
proof -
  have "b\<lparr>pos := pos b, velocity := Vector2 0 0, prev_pos := pos b\<rparr> = b\<lparr>prev_pos := pos b\<rparr>"
    using assms by simp
  then show ?thesis
    using assms by (simp add: update_def Let_def vmul_def vadd_zero vlength_def)
qed

lemma collide_rest:
  assumes "prev_pos b = pos b"
    and "combined_radius ob b \<le> vlength (vsub (pos b) (opos ob))"
  shows "collide ob b dt = Inr b"
proof -
  have "length_squared (travel b) < 1 / 100000000"
    using assms(1) by (simp add: travel_def vec_defs)
  from collide_static[OF this, of ob dt] assms(2) show ?thesis by simp
qed

lemma collide_all_rest:
  assumes "prev_pos b = pos b"
    and "\<forall>ob. CircleObstacle ob \<in> set obs \<longrightarrow>
           combined_radius ob b \<le> vlength (vsub (pos b) (opos ob))"
  shows "collide_all obs b dt = Inr b"
  using assms(2)
proof (induction obs)
  case Nil
  show ?case by simp
next
  case (Cons ob obs)
  have "obstacle_collide ob b dt = Inr b"
  proof (cases ob)
    case (CircleObstacle co)
    with Cons.prems have "combined_radius co b \<le> vlength (vsub (pos b) (opos co))" by simp
    with assms(1) CircleObstacle show ?thesis by (simp add: collide_rest)
  next
    case (PolygonObstacle pts)
    then show ?thesis by simp
  qed
  moreover have "collide_all obs b dt = Inr b"
    using Cons.prems by (intro Cons.IH) simp
  ultimately show ?case by simp
qed

lemma edge_dist_prev_pos: "edge_dist (b\<lparr>prev_pos := p\<rparr>) pts i = edge_dist b pts i"
  by (simp add: edge_dist_def edge_nearest_def)

lemma handle_rest:
  assumes "\<forall>i<length pts. radius b \<le> edge_dist b pts i"
  shows "handle_polygon_collision b pts k = Inr (b, False)"
proof (rule handle_no_hit)
  from assms show "\<forall>i<length pts. \<not> edge_hit b pts i"
    by (auto simp add: edge_hit_def)
qed

lemma physics_step_rest:
  assumes "velocity b = Vector2 0 0"
    and "\<forall>i<length (cpolygon c). radius b \<le> edge_dist b (cpolygon c) i"
    and "\<forall>ob. CircleObstacle ob \<in> set (cobstacles c) \<longrightarrow>
           combined_radius ob b \<le> vlength (vsub (pos b) (opos ob))"
  shows "physics_step c b dt = Inr (b\<lparr>prev_pos := pos b\<rparr>)"
proof -
  let ?b = "b\<lparr>prev_pos := pos b\<rparr>"
  have u: "update b dt = ?b" using assms(1) by (rule update_rest)
  have "collide_all (cobstacles c) ?b dt = Inr ?b"
    using assms(3) by (intro collide_all_rest) (simp_all add: combined_radius_def)
  moreover have "handle_polygon_collision ?b (cpolygon c) (cdamping c) = Inr (?b, False)"
    using assms(2) by (intro handle_rest) (simp add: edge_dist_prev_pos)
  ultimately show ?thesis by (simp add: physics_step_def u)
qed

lemma run_steps_rest:
  assumes "velocity b = Vector2 0 0"
    and "\<forall>i<length (cpolygon c). radius b \<le> edge_dist b (cpolygon c) i"
    and "\<forall>ob. CircleObstacle ob \<in> set (cobstacles c) \<longrightarrow>
           combined_radius ob b \<le> vlength (vsub (pos b) (opos ob))"
  shows "run_steps c b (dt # dts) = Inr (b\<lparr>prev_pos := pos b\<rparr>)"
  using assms
proof (induction dts arbitrary: b dt)
  case Nil
  then show ?case by (simp add: physics_step_rest)
next
  case (Cons dt' dts)
  let ?b = "b\<lparr>prev_pos := pos b\<rparr>"
  have step: "physics_step c b dt = Inr ?b"
    using Cons.prems by (rule physics_step_rest)
  have "run_steps c ?b (dt' # dts) = Inr (?b\<lparr>prev_pos := pos ?b\<rparr>)"
    using Cons.prems
    by (intro Cons.IH) (simp_all add: edge_dist_prev_pos combined_radius_def)
  then show ?case using step by simp
qed

text \<open>
  C7. A ball with zero velocity, at distance at least its radius from every edge of the
  boundary and at least the combined radius from the centre of every circular obstacle,
  keeps its position and velocity: \<^verbatim>\<open>update\<close> only sets the previous position to the
  position, every \<^verbatim>\<open>collide\<close> call of the tick and \<^verbatim>\<open>handle_polygon_collision\<close> return
  that ball unchanged, and so does any number of ticks, whatever their frame times.
\<close>

theorem rest_state_fixed:
  assumes "velocity b = Vector2 0 0"
    and "\<forall>i<length (cpolygon c). radius b \<le> edge_dist b (cpolygon c) i"
    and "\<forall>ob. CircleObstacle ob \<in> set (cobstacles c) \<longrightarrow>
           combined_radius ob b \<le> vlength (vsub (pos b) (opos ob))"
  shows "update b dt = b\<lparr>prev_pos := pos b\<rparr> \<and>
         (\<forall>ob. CircleObstacle ob \<in> set (cobstacles c) \<longrightarrow>
            collide ob (update b dt) dt = Inr (update b dt)) \<and>
         handle_polygon_collision (update b dt) (cpolygon c) (cdamping c)
           = Inr (update b dt, False) \<and>
         run_steps c b (dt # dts) = Inr (b\<lparr>prev_pos := pos b\<rparr>) \<and>
         (\<forall>b'. run_steps c b (dt # dts) = Inr b' \<longrightarrow>
            pos b' = pos b \<and> velocity b' = velocity b)"
proof -
  let ?b = "b\<lparr>prev_pos := pos b\<rparr>"
  have u: "update b dt = ?b" using assms(1) by (rule update_rest)
  have c: "\<forall>ob. CircleObstacle ob \<in> set (cobstacles c) \<longrightarrow> collide ob ?b dt = Inr ?b"
    using assms(3) by (auto intro!: collide_rest simp add: combined_radius_def)
  have h: "handle_polygon_collision ?b (cpolygon c) (cdamping c) = Inr (?b, False)"
    using assms(2) by (intro handle_rest) (simp add: edge_dist_prev_pos)
  have r: "run_steps c b (dt # dts) = Inr ?b"
    using assms by (rule run_steps_rest)
  from u c h r show ?thesis by simp
qed

lemma ball3_walls: "\<forall>i<length (cpolygon course1). radius ball3 \<le> edge_dist ball3 (cpolygon course1) i"
proof (intro allI impI)
  fix i assume "i < length (cpolygon course1)"
  then have "i < 4" by (simp add: course1_def square_def)
  then consider "i = 0" | "i = Suc 0" | "i = 2" | "i = 3" by linarith
  then show "radius ball3 \<le> edge_dist ball3 (cpolygon course1) i"
    by cases
      (simp_all add: course1_def edge_dist_def square_dists,
       simp_all add: ball3_def vsub_def vlength_axis_x vlength_axis_y)
qed

lemma ball3_obstacles:
  "\<forall>ob. CircleObstacle ob \<in> set (cobstacles course1) \<longrightarrow>
     combined_radius ob ball3 \<le> vlength (vsub (pos ball3) (opos ob))"
  by (simp add: course1_def combined_radius_def obst2_def ball3_def vsub_def vlength_axis_x)

lemma ball3_rest: "velocity ball3 = Vector2 0 0"
  by (simp add: ball3_def)

theorem rest_state_fixed_witness:
  "velocity ball3 = Vector2 0 0 \<and> radius ball3 = 8 \<and>
   cpolygon course1 = square \<and>
   edge_dist ball3 square 0 = 50 \<and> edge_dist ball3 square 1 = 50 \<and>
   edge_dist ball3 square 2 = 50 \<and> edge_dist ball3 square 3 = 50 \<and>
   cobstacles course1 = [CircleObstacle obst2] \<and>
   combined_radius obst2 ball3 = 18 \<and> vlength (vsub (pos ball3) (opos obst2)) = 30 \<and>
   update ball3 (1 / 60) = ball3 \<and>
   collide obst2 ball3 (1 / 60) = Inr ball3 \<and>
   handle_polygon_collision ball3 (cpolygon course1) (cdamping course1) = Inr (ball3, False) \<and>
   run_steps course1 ball3 [1 / 60, 1 / 60, 1 / 30] = Inr ball3"
proof -
  note r = rest_state_fixed [OF ball3_rest ball3_walls ball3_obstacles,
             of "1 / 60" "[1 / 60, 1 / 30]"]
  have same: "ball3\<lparr>prev_pos := pos ball3\<rparr> = ball3"
    by (simp add: ball3_def)
  have obs: "cobstacles course1 = [CircleObstacle obst2]" and poly: "cpolygon course1 = square"
    by (simp_all add: course1_def)
  have rad: "radius ball3 = 8" by (simp add: ball3_def)
  have d: "edge_dist ball3 square 0 = 50" "edge_dist ball3 square 1 = 50"
    "edge_dist ball3 square 2 = 50" "edge_dist ball3 square 3 = 50"
    by (simp_all add: edge_dist_def square_dists)
       (simp_all add: ball3_def vsub_def vlength_axis_x vlength_axis_y)
  have o: "combined_radius obst2 ball3 = 18" "vlength (vsub (pos ball3) (opos obst2)) = 30"
    by (simp_all add: combined_radius_def obst2_def ball3_def vsub_def vlength_axis_x)
  have u: "update ball3 (1 / 60) = ball3"
    using r [THEN conjunct1] unfolding same .
  have "collide obst2 (update ball3 (1 / 60)) (1 / 60) = Inr (update ball3 (1 / 60))"
    using r [THEN conjunct2, THEN conjunct1] obs by simp
  then have c: "collide obst2 ball3 (1 / 60) = Inr ball3"
    unfolding u .
  have h: "handle_polygon_collision ball3 (cpolygon course1) (cdamping course1)
             = Inr (ball3, False)"
    using r [THEN conjunct2, THEN conjunct2, THEN conjunct1] unfolding u .
  have s: "run_steps course1 ball3 [1 / 60, 1 / 60, 1 / 30] = Inr ball3"
    using r [THEN conjunct2, THEN conjunct2, THEN conjunct2, THEN conjunct1] unfolding same .
  from ball3_rest rad poly d obs o u c h s show ?thesis
    by (intro conjI)
qed

section \<open>Configuration\<close>

lemma lookup_Inl: "lookup v = Inl e \<Longrightarrow> e = KeyError"
  by (cases v) (simp_all add: lookup_def)

lemma and_then_Inl:
  "and_then r f = Inl e \<longleftrightarrow> r = Inl e \<or> (\<exists>x. r = Inr x \<and> f x = Inl e)"
  by (cases r) (simp_all add: and_then_def)

lemma and_then_Inr:
  "and_then r f = Inr y \<longleftrightarrow> (\<exists>x. r = Inr x \<and> f x = Inr y)"
  by (cases r) (simp_all add: and_then_def)

lemma comprehension_Inl:
  assumes "comprehension f xs = Inl e"
  shows "\<exists>x. f x = Inl e"
  using assms
proof (induction xs)
  case Nil
  then show ?case by simp
next
  case (Cons x xs)
  then show ?case by (auto split: sum.splits)
qed

lemma make_hole_Inl: "make_hole ch h = Inl e \<Longrightarrow> e = KeyError"
  by (auto simp add: make_hole_def and_then_Inl dest: lookup_Inl)

lemma make_obstacle_Inl: "make_obstacle od = Inl e \<Longrightarrow> e = KeyError \<or> e = TypeError"
  by (auto simp add: make_obstacle_def and_then_Inl dest: lookup_Inl split: if_splits)

lemma holes_Inl: "comprehension (make_hole ch) hs = Inl e \<Longrightarrow> e = KeyError"
  using comprehension_Inl make_hole_Inl by blast

lemma obstacles_Inl:
  "comprehension make_obstacle ods = Inl e \<Longrightarrow> e = KeyError \<or> e = TypeError"
  using comprehension_Inl make_obstacle_Inl by blast

lemma Course_init_Inl:
  assumes "Course_init data = Inl e"
  shows "e = KeyError \<or> e = TypeError"
  using assms unfolding Course_init_def
  by (auto simp add: and_then_Inl dest: lookup_Inl holes_Inl obstacles_Inl)

lemma Course_init_polygon:
  assumes "Course_init data = Inr c"
  shows "\<exists>pts. cd_polygon data = Some pts \<and> cpolygon c = map to_Vector2 pts"
proof -
  from assms obtain polygon where p: "lookup (cd_polygon data) = Inr polygon"
    and c: "cpolygon c = map to_Vector2 polygon"
    unfolding Course_init_def and_then_Inr by auto
  from p have "cd_polygon data = Some polygon"
    by (cases "cd_polygon data") (simp_all add: lookup_def)
  with c show ?thesis by blast
qed

lemma Course_init_any_polygon:
  "isl (Course_init (data\<lparr>cd_polygon := Some pts\<rparr>))
     = isl (Course_init (data\<lparr>cd_polygon := Some pts'\<rparr>))"
  by (simp add: Course_init_def and_then_def lookup_def split: sum.splits option.splits)

lemma default_course_fails: "Course_init default_course_data = Inl KeyError"
  by (simp add: Course_init_def default_course_data_def and_then_def lookup_def make_hole_def)

text \<open>
  C9 (amended). The core checks none of its configuration. \<^verbatim>\<open>Ball.__init__\<close> stores
  the radius and the friction it is given, whatever their sign; \<^verbatim>\<open>Ball.update\<close> applies
  its formulae for every \<open>dt\<close>, positive or not. \<^verbatim>\<open>Course.__init__\<close> does not look at
  the number of vertices: it raises a \<^verbatim>\<open>KeyError\<close> for a key that is missing (as on
  the built-in default course, which has no \<^verbatim>\<open>color_course_stroke\<close>), but whether it
  fails never depends on the list of vertices of the polygon, and a course that is built
  holds them as they were given, however few. And \<^verbatim>\<open>handle_polygon_collision\<close>
  returns for every polygon.
\<close>

theorem configuration_unchecked:
  "radius (Ball_init p fr rad col) = rad \<and> friction (Ball_init p fr rad col) = fr \<and>
   prev_pos (update b dt) = pos b \<and>
   pos (update b dt) = vadd (pos b) (vmul (velocity b) dt) \<and>
   Course_init default_course_data = Inl KeyError \<and>
   isl (Course_init (data\<lparr>cd_polygon := Some vs\<rparr>))
     = isl (Course_init (data\<lparr>cd_polygon := Some vs'\<rparr>)) \<and>
   (\<forall>c. Course_init data = Inr c \<longrightarrow>
      (\<exists>vs. cd_polygon data = Some vs \<and> cpolygon c = map to_Vector2 vs)) \<and>
   (\<exists>res. handle_polygon_collision b pts k = Inr res)"
proof (intro conjI allI impI)
  show "radius (Ball_init p fr rad col) = rad" "friction (Ball_init p fr rad col) = fr"
    by (simp_all add: Ball_init_def)
  show "prev_pos (update b dt) = pos b" "pos (update b dt) = vadd (pos b) (vmul (velocity b) dt)"
    by (simp_all add: update_def Let_def)
  show "Course_init default_course_data = Inl KeyError"
    by (rule default_course_fails)
  show "isl (Course_init (data\<lparr>cd_polygon := Some vs\<rparr>))
          = isl (Course_init (data\<lparr>cd_polygon := Some vs'\<rparr>))"
    by (rule Course_init_any_polygon)
  show "\<exists>vs. cd_polygon data = Some vs \<and> cpolygon c = map to_Vector2 vs"
    if "Course_init data = Inr c" for c
    using that by (rule Course_init_polygon)
  show "\<exists>res. handle_polygon_collision b pts k = Inr res"
    by (rule handle_never_raises)
qed

lemma bad_course_init: "Course_init bad_data = Inr bad_course"
  by (simp add: Course_init_def bad_data_def bad_course_def to_Vector2_def and_then_def
        lookup_def)

lemma bad_ball_fields:
  "pos bad_ball = Vector2 5 5" "velocity bad_ball = Vector2 10 0" "radius bad_ball = - 1"
  "friction bad_ball = - 2" "prev_pos bad_ball = Vector2 5 5"
  by (simp_all add: bad_ball_def Ball_init_def)

lemma bad_ball_update:
  "update bad_ball (- 1) = bad_ball\<lparr>pos := Vector2 (- 5) 5, velocity := Vector2 40 0\<rparr>"
proof -
  have "vlength (Vector2 40 0) = 40" by (simp add: vlength_axis_x)
  then show ?thesis
    by (simp add: update_def Let_def bad_ball_def Ball_init_def vadd_def vmul_def)
qed

lemma negative_radius_no_hit:
  assumes "radius b \<le> 0"
  shows "\<not> edge_hit b pts i"
  using assms vlength_nonneg[of "vsub (pos b) (edge_nearest b pts i)"]
  by (simp add: edge_hit_def edge_dist_def)

lemma bad_step:
  "physics_step bad_course bad_ball (- 1)
     = Inr (bad_ball\<lparr>pos := Vector2 (- 5) 5, velocity := Vector2 40 0\<rparr>)"
proof -
  let ?b = "bad_ball\<lparr>pos := Vector2 (- 5) 5, velocity := Vector2 40 0\<rparr>"
  have "radius ?b \<le> 0" by (simp add: bad_ball_fields)
  then have "\<forall>i<length (cpolygon bad_course). \<not> edge_hit ?b (cpolygon bad_course) i"
    by (simp add: negative_radius_no_hit)
  then have "handle_polygon_collision ?b (cpolygon bad_course) (cdamping bad_course) = Inr (?b, False)"
    by (rule handle_no_hit)
  moreover have "cobstacles bad_course = []" by (simp add: bad_course_def)
  ultimately show ?thesis
    by (simp add: physics_step_def bad_ball_update)
qed

text \<open>
  A course whose polygon has two vertices is built without error, and a tick with frame
  time \<open>-1\<close> on a ball of radius \<open>-1\<close> and friction \<open>-2\<close> runs to its end: the ball moves
  backwards and its speed is multiplied by four.
\<close>

theorem invalid_configuration_counterexample:
  "Course_init bad_data = Inr bad_course \<and> length (cpolygon bad_course) = 2 \<and>
   radius bad_ball = - 1 \<and> friction bad_ball = - 2 \<and>
   physics_step bad_course bad_ball (- 1)
     = Inr (bad_ball\<lparr>pos := Vector2 (- 5) 5, velocity := Vector2 40 0\<rparr>)"
  using bad_course_init bad_ball_fields bad_step
  by (simp add: bad_course_def)

theorem configuration_unchecked_witness:
  "Course_init bad_data = Inr bad_course \<and>
   cd_polygon bad_data = Some [(0, 0), (10, 0)] \<and>
   cpolygon bad_course = [Vector2 0 0, Vector2 10 0] \<and>
   Course_init default_course_data = Inl KeyError \<and>
   radius (Ball_init (Vector2 5 5) (- 2) (- 1) (192, 192, 192)) = - 1 \<and>
   pos (update bad_ball (- 1)) = Vector2 (- 5) 5"
proof -
  note u = configuration_unchecked [where data = bad_data and b = bad_ball and dt = "- 1"
             and p = "Vector2 5 5" and fr = "- 2" and rad = "- 1" and col = "(192, 192, 192)"]
  have "\<exists>vs. cd_polygon bad_data = Some vs \<and> cpolygon bad_course = map to_Vector2 vs"
    using u bad_course_init by blast
  then have p: "cd_polygon bad_data = Some [(0, 0), (10, 0)]"
    and c: "cpolygon bad_course = [Vector2 0 0, Vector2 10 0]"
    by (auto simp add: bad_data_def to_Vector2_def)
  have d: "Course_init default_course_data = Inl KeyError"
    using u by blast
  have r: "radius (Ball_init (Vector2 5 5) (- 2) (- 1) (192, 192, 192)) = - 1"
    using u by blast
  have "pos (update bad_ball (- 1)) = vadd (pos bad_ball) (vmul (velocity bad_ball) (- 1))"
    using u by blast
  then have m: "pos (update bad_ball (- 1)) = Vector2 (- 5) 5"
    by (simp add: bad_ball_fields vadd_def vmul_def)
  from bad_course_init p c d r m show ?thesis by (intro conjI)
qed

end
